theory Spec2Isabelle
  imports Complex_Main "HOL-Library.Multiset" "HOL-Library.Product_Lexorder"
    "HOL-Library.Char_ord" "HOL-Library.List_Lexorder"
begin

section \<open>Values, rows and frames\<close>

text \<open>
  The dashboard of \<^verbatim>\<open>src/app.py\<close> reads documents of a Firestore collection into a pandas
  DataFrame, filters it, derives per-row fields and aggregates KPIs. A cell of the frame
  is a Python object:
  \<^item> \<open>NaN\<close> is the missing value pandas fills in for a key a document does not have; it
    also stands for \<open>NaT\<close>, the missing value of a datetime column;
  \<^item> \<open>PyNone\<close> is Python's \<open>None\<close> (a Firestore null);
  \<^item> \<open>Num\<close> is a number. Floats are modelled by exact rationals: rounding, infinities and
    a NaN that arithmetic produces are outside the model;
  \<^item> \<open>Ts d\<close> is the timestamp at midnight of the calendar day with key \<open>d\<close>, what
    \<^verbatim>\<open>pd.to_datetime(.., format="%Y-%m-%d")\<close> makes of a date string. Keys grow with
    the calendar; the day 2024-01-03 has the key 20240103.
\<close>

datatype val = NaN | PyNone | Bool bool | Num rat | Str string | Ts nat

datatype error = KeyError string | TypeError | ZeroDivisionError

text \<open>An exception ends the computation: the steps after it do not run.\<close>

definition bindE :: "error + 'a \<Rightarrow> ('a \<Rightarrow> error + 'b) \<Rightarrow> error + 'b" where
  "bindE m f = (case m of Inl e \<Rightarrow> Inl e | Inr x \<Rightarrow> f x)"

text \<open>A row (a pandas Series, or a document's dict): labels with their values.\<close>

type_synonym series = "(string \<times> val) list"

record frame =
  columns :: "string list"
  rows :: "series list"

text \<open>
  Three library functions are not part of the repository and have no closed form here:
  Python's \<open>str\<close> on a number or a timestamp, the parser of \<^verbatim>\<open>pd.to_numeric\<close> on a
  string, and the parser of \<^verbatim>\<open>pd.to_datetime\<close> on a value that is not missing. They are
  parameters of the model.

  The repository pins no version of pandas, and \<^verbatim>\<open>Series.astype(str)\<close> differs between
  versions on a missing value: before pandas 3 it becomes the text \<open>nan\<close> (\<open>None\<close> for a
  null), from pandas 3 on it stays missing. The flag \<open>keeps_na\<close> says which: \<open>False\<close> for
  pandas before 3, \<open>True\<close> for pandas 3. A theorem that names no library holds for every
  library and both versions.
\<close>

record pylib =
  str_of :: "val \<Rightarrow> string"
  numeric_of :: "string \<Rightarrow> rat option"
  datetime_of :: "val \<Rightarrow> nat option"
  keeps_na :: bool

fun isna :: "val \<Rightarrow> bool" where
  "isna NaN = True"
| "isna PyNone = True"
| "isna _ = False"

text \<open>\<^verbatim>\<open>Series.get(key, default)\<close> and \<^verbatim>\<open>dict.get\<close>.\<close>

definition get :: "series \<Rightarrow> string \<Rightarrow> val \<Rightarrow> val" where
  "get r c d = (case map_of r c of Some v \<Rightarrow> v | None \<Rightarrow> d)"

text \<open>The cell of a row in a column of its frame; a key the document lacks reads NaN.\<close>

definition cell :: "series \<Rightarrow> string \<Rightarrow> val" where
  "cell r c = get r c NaN"

text \<open>\<^verbatim>\<open>r[k] = v\<close>: overwrite the label, or append it.\<close>

fun set_item :: "series \<Rightarrow> string \<Rightarrow> val \<Rightarrow> series" where
  "set_item [] k v = [(k, v)]"
| "set_item ((k', v') # r) k v =
     (if k' = k then (k, v) # r else (k', v') # set_item r k v)"

text \<open>
  \<^verbatim>\<open>pd.DataFrame(rows)\<close> of a list of dicts: the columns are the union of the keys, and
  every row gets every column, NaN where its dict has no such key. The order of the
  columns plays no role in what follows.
\<close>

definition reindex :: "string list \<Rightarrow> series \<Rightarrow> series" where
  "reindex cols r = map (\<lambda>c. (c, get r c NaN)) cols"

definition DataFrame :: "series list \<Rightarrow> frame" where
  "DataFrame recs =
     (let cols = remdups (concat (map (map fst) recs))
      in \<lparr>columns = cols, rows = map (reindex cols) recs\<rparr>)"

text \<open>\<^verbatim>\<open>df[c] = f(df[c])\<close> elementwise, \<^verbatim>\<open>df[c] = df.apply(f, axis=1)\<close> and \<^verbatim>\<open>df[mask]\<close>.\<close>

definition map_col :: "string \<Rightarrow> (val \<Rightarrow> val) \<Rightarrow> frame \<Rightarrow> frame" where
  "map_col c f df = df\<lparr>rows := map (\<lambda>r. set_item r c (f (cell r c))) (rows df)\<rparr>"

definition assign :: "string \<Rightarrow> (series \<Rightarrow> val) \<Rightarrow> frame \<Rightarrow> frame" where
  "assign c f df =
     \<lparr>columns = (if c \<in> set (columns df) then columns df else columns df @ [c]),
      rows = map (\<lambda>r. set_item r c (f r)) (rows df)\<rparr>"

definition select :: "(series \<Rightarrow> bool) \<Rightarrow> frame \<Rightarrow> frame" where
  "select p df = df\<lparr>rows := filter p (rows df)\<rparr>"

text \<open>The cells of a column, in row order.\<close>

definition column :: "frame \<Rightarrow> string \<Rightarrow> val list" where
  "column df c = map (\<lambda>r. cell r c) (rows df)"

section \<open>Strings\<close>

text \<open>
  \<^verbatim>\<open>str.upper\<close> on ASCII letters; other bytes are left as they are (Python also maps
  letters beyond ASCII, none of them onto the action names compared below).
\<close>

definition upper_char :: "char \<Rightarrow> char" where
  "upper_char c =
     (case map_of (zip ''abcdefghijklmnopqrstuvwxyz'' ''ABCDEFGHIJKLMNOPQRSTUVWXYZ'') c of
        Some u \<Rightarrow> u | None \<Rightarrow> c)"

definition upper :: "string \<Rightarrow> string" where
  "upper s = map upper_char s"

text \<open>Python's \<^verbatim>\<open>str(v)\<close>: a NaN is the text \<open>nan\<close>, a null the text \<open>None\<close>.\<close>

definition py_str :: "pylib \<Rightarrow> val \<Rightarrow> string" where
  "py_str L v =
     (case v of
        NaN \<Rightarrow> ''nan''
      | PyNone \<Rightarrow> ''None''
      | Bool b \<Rightarrow> (if b then ''True'' else ''False'')
      | Str s \<Rightarrow> s
      | _ \<Rightarrow> str_of L v)"

text \<open>
  \<^verbatim>\<open>Series.astype(str)\<close> on one cell: the text of the value, or no text (\<open>None\<close>) where the
  library keeps a missing value missing.
\<close>

definition astype_str :: "pylib \<Rightarrow> val \<Rightarrow> string option" where
  "astype_str L v = (if isna v \<and> keeps_na L then None else Some (py_str L v))"

text \<open>
  \<^verbatim>\<open>df["cb_action"].astype(str).str.upper()\<close> and the same of \<open>result\<close>, row by row;
  \<^verbatim>\<open>.str.upper()\<close> leaves a missing text missing.
\<close>

definition action_of :: "pylib \<Rightarrow> series \<Rightarrow> string option" where
  "action_of L r = map_option upper (astype_str L (cell r ''cb_action''))"

definition result_of :: "pylib \<Rightarrow> series \<Rightarrow> string option" where
  "result_of L r = map_option upper (astype_str L (cell r ''result''))"

section \<open>The loader\<close>

text \<open>
  \<^verbatim>\<open>pd.to_datetime(.., format="%Y-%m-%d", errors="coerce")\<close>: a value that does not parse
  becomes NaT. \<^verbatim>\<open>pd.to_numeric(.., errors="coerce")\<close>: a value that is no number becomes
  NaN.
\<close>

definition to_datetime :: "pylib \<Rightarrow> val \<Rightarrow> val" where
  "to_datetime L v =
     (if isna v then NaN
      else case datetime_of L v of Some d \<Rightarrow> Ts d | None \<Rightarrow> NaN)"

definition to_numeric :: "pylib \<Rightarrow> val \<Rightarrow> val" where
  "to_numeric L v =
     (case v of
        Num x \<Rightarrow> Num x
      | Bool b \<Rightarrow> Num (if b then 1 else 0)
      | Str s \<Rightarrow> (case numeric_of L s of Some x \<Rightarrow> Num x | None \<Rightarrow> NaN)
      | _ \<Rightarrow> NaN)"

text \<open>\<^verbatim>\<open>r = d.to_dict(); r["_doc_id"] = d.id\<close> for a document \<open>(id, fields)\<close>.\<close>

definition to_row :: "string \<times> series \<Rightarrow> series" where
  "to_row d = set_item (snd d) ''_doc_id'' (Str (fst d))"

definition numeric_columns :: "string list" where
  "numeric_columns = [''cb_stake'', ''cb_pnl'', ''cb_bank_after'', ''cb_dd_after'']"

definition coerce_numeric :: "pylib \<Rightarrow> frame \<Rightarrow> string \<Rightarrow> frame" where
  "coerce_numeric L df c =
     (if c \<in> set (columns df) then map_col c (to_numeric L) df else df)"

text \<open>
  \<^verbatim>\<open>fetch_df\<close>, given the documents the store streams. \<^verbatim>\<open>df["date"]\<close> is read without a
  guard, so a collection in which no document has a date is a KeyError.
\<close>

definition fetch_df :: "pylib \<Rightarrow> (string \<times> series) list \<Rightarrow> error + frame" where
  "fetch_df L docs =
     (let df = DataFrame (map to_row docs)
      in if ''date'' \<notin> set (columns df) then Inl (KeyError ''date'')
         else Inr (foldl (coerce_numeric L)
                     (map_col ''date'' (to_datetime L) df) numeric_columns))"

section \<open>The filter engine\<close>

text \<open>
  \<^verbatim>\<open>out["date"] >= pd.to_datetime(date_from)\<close> and its twin: a comparison with a missing
  date is False. The bounds are calendar days, given by their keys.
\<close>

definition date_ge :: "val \<Rightarrow> nat \<Rightarrow> bool" where
  "date_ge v d = (case v of Ts n \<Rightarrow> d \<le> n | _ \<Rightarrow> False)"

definition date_le :: "val \<Rightarrow> nat \<Rightarrow> bool" where
  "date_le v d = (case v of Ts n \<Rightarrow> n \<le> d | _ \<Rightarrow> False)"

text \<open>
  \<^verbatim>\<open>sort_values(["date","dia_id"], ascending=True, na_position="last")\<close> is a stable sort
  on the pair of keys, a missing value after every present one in each key. Within a key
  pandas orders the values it finds: numbers by value, then strings by code point,
  timestamps by time; it does not raise on a column that mixes numbers and strings.
\<close>

fun val_key :: "val \<Rightarrow> nat \<times> rat \<times> string" where
  "val_key NaN = (3, 0, [])"
| "val_key PyNone = (3, 0, [])"
| "val_key (Bool b) = (0, (if b then 1 else 0), [])"
| "val_key (Num x) = (0, x, [])"
| "val_key (Str s) = (1, 0, s)"
| "val_key (Ts n) = (2, of_nat n, [])"

definition row_key :: "series \<Rightarrow> (nat \<times> rat \<times> string) \<times> (nat \<times> rat \<times> string)" where
  "row_key r = (val_key (cell r ''date''), val_key (cell r ''dia_id''))"

definition sort_values :: "frame \<Rightarrow> error + frame" where
  "sort_values df =
     (if ''date'' \<notin> set (columns df) then Inl (KeyError ''date'')
      else if ''dia_id'' \<notin> set (columns df) then Inl (KeyError ''dia_id'')
      else Inr (df\<lparr>rows := sort_key row_key (rows df)\<rparr>))"

text \<open>
  Python's own order, which \<^verbatim>\<open>sorted\<close> and the sort of a single object column use,
  compares numbers with numbers, strings with strings and timestamps with timestamps;
  values of two of these kinds together are a TypeError. Missing values are dropped or
  set aside before.
\<close>

fun kind :: "val \<Rightarrow> nat option" where
  "kind NaN = None"
| "kind PyNone = None"
| "kind (Bool b) = Some 0"
| "kind (Num x) = Some 0"
| "kind (Str s) = Some 1"
| "kind (Ts n) = Some 2"

definition sortable :: "val list \<Rightarrow> bool" where
  "sortable vs = (\<forall>v \<in> set vs. \<forall>w \<in> set vs. kind v = None \<or> kind w = None \<or> kind v = kind w)"

definition apply_filters ::
  "pylib \<Rightarrow> frame \<Rightarrow> string \<Rightarrow> nat \<Rightarrow> nat \<Rightarrow> string \<Rightarrow> error + frame" where
  "apply_filters L df league date_from date_to cb_action =
     (if league \<noteq> ''ALL'' \<and> ''league'' \<notin> set (columns df) then Inl (KeyError ''league'')
      else if cb_action \<noteq> ''ALL'' \<and> ''cb_action'' \<notin> set (columns df)
        then Inl (KeyError ''cb_action'')
      else if ''date'' \<notin> set (columns df) then Inl (KeyError ''date'')
      else
        let out1 = (if league \<noteq> ''ALL''
                    then select (\<lambda>r. cell r ''league'' = Str league) df else df);
            out2 = (if cb_action \<noteq> ''ALL''
                    then select (\<lambda>r. action_of L r = Some cb_action) out1
                    else out1);
            out3 = select (\<lambda>r. date_ge (cell r ''date'') date_from
                               \<and> date_le (cell r ''date'') date_to) out2
        in sort_values out3)"

text \<open>
  \<^verbatim>\<open>df["date"].min()\<close> and \<^verbatim>\<open>.max()\<close> skip the missing dates; with no date at all there is
  no bound.
\<close>

definition dates :: "frame \<Rightarrow> nat list" where
  "dates df = concat (map (\<lambda>r. case cell r ''date'' of Ts n \<Rightarrow> [n] | _ \<Rightarrow> []) (rows df))"

definition min_date :: "frame \<Rightarrow> nat option" where
  "min_date df = (case dates df of [] \<Rightarrow> None | d # ds \<Rightarrow> Some (fold min ds d))"

definition max_date :: "frame \<Rightarrow> nat option" where
  "max_date df = (case dates df of [] \<Rightarrow> None | d # ds \<Rightarrow> Some (fold max ds d))"

section \<open>The field picker and the derived columns\<close>

text \<open>\<^verbatim>\<open>a = str(row.get("cb_action","")).upper()\<close>, the action text the picker dispatches on.\<close>

definition picked_action :: "pylib \<Rightarrow> series \<Rightarrow> string" where
  "picked_action L row = upper (py_str L (get row ''cb_action'' (Str [])))"

definition pick_by_action :: "pylib \<Rightarrow> series \<Rightarrow> string \<Rightarrow> val" where
  "pick_by_action L row prefix =
     (let a = picked_action L row
      in if a = ''H'' then get row (prefix @ ''_H'') PyNone
         else if a = ''D'' then get row (prefix @ ''_D'') PyNone
         else if a = ''A'' then get row (prefix @ ''_A'') PyNone
         else PyNone)"

text \<open>\<^verbatim>\<open>.ne("NO_BET")\<close>: a missing text is not equal to \<open>NO_BET\<close>.\<close>

definition is_bet :: "pylib \<Rightarrow> series \<Rightarrow> bool" where
  "is_bet L r = (action_of L r \<noteq> Some ''NO_BET'')"

text \<open>
  Lines 89 to 92: the filtered frame gets the column \<open>is_bet\<close>; the bet subset is the rows
  where it holds, and only the bet subset gets \<open>ev_cb\<close> and \<open>edge_cb\<close>. The result is
  the pair \<open>(df_f, df_bets)\<close>.
\<close>

definition derive :: "pylib \<Rightarrow> frame \<Rightarrow> error + frame \<times> frame" where
  "derive L df =
     (if ''cb_action'' \<notin> set (columns df) then Inl (KeyError ''cb_action'')
      else
        let df_f = assign ''is_bet'' (\<lambda>r. Bool (is_bet L r)) df;
            df_b0 = select (\<lambda>r. cell r ''is_bet'' = Bool True) df_f;
            df_b1 = assign ''ev_cb'' (\<lambda>r. pick_by_action L r ''ev'') df_b0;
            df_bets = assign ''edge_cb'' (\<lambda>r. pick_by_action L r ''edge'') df_b1
        in Inr (df_f, df_bets))"

text \<open>What these lines make of one row of the bet subset.\<close>

definition bet_row :: "pylib \<Rightarrow> series \<Rightarrow> series" where
  "bet_row L r =
     (let r0 = set_item r ''is_bet'' (Bool (is_bet L r));
          r1 = set_item r0 ''ev_cb'' (pick_by_action L r0 ''ev'')
      in set_item r1 ''edge_cb'' (pick_by_action L r1 ''edge''))"

section \<open>The aggregator\<close>

text \<open>
  A column the loader coerced holds numbers and NaN only; \<open>float_col\<close> reads such a
  column as optional numbers, a KeyError when the frame has no such column. A cell of
  another shape cannot come out of the loader (see \<open>fetch_df_numeric\<close> below); the sum or
  maximum of such a column is a TypeError here.
\<close>

fun as_float :: "val \<Rightarrow> rat option option" where
  "as_float NaN = Some None"
| "as_float (Num x) = Some (Some x)"
| "as_float _ = None"

definition float_col :: "frame \<Rightarrow> string \<Rightarrow> error + rat option list" where
  "float_col df c =
     (if c \<notin> set (columns df) then Inl (KeyError c)
      else if \<exists>r \<in> set (rows df). as_float (cell r c) = None then Inl TypeError
      else Inr (map (\<lambda>r. the (as_float (cell r c))) (rows df)))"

definition fillna :: "rat \<Rightarrow> rat option \<Rightarrow> rat" where
  "fillna d x = (case x of Some v \<Rightarrow> v | None \<Rightarrow> d)"

definition dropna :: "rat option list \<Rightarrow> rat list" where
  "dropna xs = concat (map (\<lambda>x. case x of Some v \<Rightarrow> [v] | None \<Rightarrow> []) xs)"

text \<open>\<^verbatim>\<open>float(df_bets[c].fillna(0).sum()) if bets else 0.0\<close>: with no bet the column is not read.\<close>

definition total :: "frame \<Rightarrow> string \<Rightarrow> error + rat" where
  "total df_bets c =
     (if length (rows df_bets) = 0 then Inr 0
      else case float_col df_bets c of
             Inl e \<Rightarrow> Inl e
           | Inr xs \<Rightarrow> Inr (sum_list (map (fillna 0) xs)))"

text \<open>
  Python's division of two floats raises on a zero divisor. Line 101:
  \<^verbatim>\<open>(pnl_total / stake_total) if stake_total > 0 else 0.0\<close>.
\<close>

definition py_div :: "rat \<Rightarrow> rat \<Rightarrow> error + rat" where
  "py_div a b = (if b = 0 then Inl ZeroDivisionError else Inr (a / b))"

definition roi_simple :: "rat \<Rightarrow> rat \<Rightarrow> error + rat" where
  "roi_simple pnl_total stake_total =
     (if stake_total > 0 then py_div pnl_total stake_total else Inr 0)"

text \<open>\<^verbatim>\<open>df_f[c].dropna().iloc[-1] if df_f[c].notna().any() else None\<close>.\<close>

definition bank_final :: "frame \<Rightarrow> error + rat option" where
  "bank_final df_f =
     (case float_col df_f ''cb_bank_after'' of
        Inl e \<Rightarrow> Inl e
      | Inr xs \<Rightarrow> Inr (if dropna xs \<noteq> [] then Some (last (dropna xs)) else None))"

definition max_dd :: "frame \<Rightarrow> error + rat option" where
  "max_dd df_f =
     (case float_col df_f ''cb_dd_after'' of
        Inl e \<Rightarrow> Inl e
      | Inr xs \<Rightarrow> Inr (case dropna xs of [] \<Rightarrow> None | y # ys \<Rightarrow> Some (fold max ys y)))"

record kpis =
  matches :: nat
  bets :: nat
  stake_total :: rat
  pnl_total :: rat
  roi :: rat
  bank :: "rat option"
  drawdown :: "rat option"

text \<open>Lines 97 to 103, in the order the script runs them: the first error ends the run.\<close>

definition home_kpis :: "frame \<Rightarrow> frame \<Rightarrow> error + kpis" where
  "home_kpis df_f df_bets =
     bindE (total df_bets ''cb_stake'') (\<lambda>st.
     bindE (total df_bets ''cb_pnl'') (\<lambda>pn.
     bindE (roi_simple pn st) (\<lambda>ro.
     bindE (bank_final df_f) (\<lambda>bf.
     bindE (max_dd df_f) (\<lambda>dd.
       Inr \<lparr>matches = length (rows df_f), bets = length (rows df_bets),
            stake_total = st, pnl_total = pn, roi = ro,
            bank = bf, drawdown = dd\<rparr>)))))"

subsection \<open>Backtest tab: contingency table, hit rate, rollup by league\<close>

text \<open>
  The tab computes its figures only when there is a bet (\<^verbatim>\<open>if bets == 0: st.info(..)\<close>),
  which is the value \<open>None\<close> here.

  \<^verbatim>\<open>pd.crosstab(actions, results, dropna=False)\<close>: one row per action text and one column
  per result text that occurs, both sorted, each cell the number of bets with that pair.
  Where the library keeps a missing text missing it is a label of its own, after the
  texts.
\<close>

definition labels :: "string option list \<Rightarrow> string option list" where
  "labels xs =
     map Some (sort (remdups (concat (map (\<lambda>x. case x of Some s \<Rightarrow> [s] | None \<Rightarrow> []) xs))))
     @ (if None \<in> set xs then [None] else [])"

definition conf ::
  "pylib \<Rightarrow> frame \<Rightarrow> error + (string option \<times> (string option \<times> nat) list) list option" where
  "conf L df_bets =
     (if length (rows df_bets) = 0 then Inr None
      else if ''cb_action'' \<notin> set (columns df_bets) then Inl (KeyError ''cb_action'')
      else if ''result'' \<notin> set (columns df_bets) then Inl (KeyError ''result'')
      else Inr (Some
        (map (\<lambda>a. (a, map (\<lambda>b. (b, length (filter (\<lambda>r. action_of L r = a \<and> result_of L r = b)
                                                  (rows df_bets))))
                         (labels (map (result_of L) (rows df_bets)))))
             (labels (map (action_of L) (rows df_bets))))))"

text \<open>
  \<^verbatim>\<open>float((actions == results).mean())\<close>: the comparison of two texts, False where either
  is missing.
\<close>

definition hit :: "pylib \<Rightarrow> series \<Rightarrow> bool" where
  "hit L r = (action_of L r \<noteq> None \<and> action_of L r = result_of L r)"

definition hit_rate :: "pylib \<Rightarrow> frame \<Rightarrow> error + rat option" where
  "hit_rate L df_bets =
     (if length (rows df_bets) = 0 then Inr None
      else if ''cb_action'' \<notin> set (columns df_bets) then Inl (KeyError ''cb_action'')
      else if ''result'' \<notin> set (columns df_bets) then Inl (KeyError ''result'')
      else Inr (Some (of_nat (length (filter (hit L) (rows df_bets)))
                      / of_nat (length (rows df_bets)))))"

text \<open>
  \<^verbatim>\<open>groupby("league", dropna=False)\<close>: the missing leagues form one group. The sums of a
  group skip missing cells. The order of the groups (pandas sorts them by league, the
  display by \<open>pnl_total\<close>) is not modelled: they come in order of first appearance.

  The loader makes numbers of \<open>cb_stake\<close> and \<open>cb_pnl\<close>, not of the \<open>ev\<close> fields. A cell of
  \<open>ev_cb\<close> that is neither a number nor missing (a text, say) is outside the model: the
  rollup is a TypeError there, which stands for whatever pandas makes of such a sum.
\<close>

definition group_key :: "val \<Rightarrow> val" where
  "group_key v = (if isna v then NaN else v)"

fun as_number :: "val \<Rightarrow> rat option option" where
  "as_number NaN = Some None"
| "as_number PyNone = Some None"
| "as_number (Num x) = Some (Some x)"
| "as_number _ = None"

definition group_sum :: "series list \<Rightarrow> string \<Rightarrow> rat" where
  "group_sum rs c = sum_list (map (\<lambda>r. fillna 0 (the (as_number (cell r c)))) rs)"

record league_kpis =
  league :: val
  l_bets :: nat
  l_stake_total :: rat
  l_pnl_total :: rat
  l_ev_sum :: rat
  l_roi_simple :: rat

text \<open>
  Line 181: \<^verbatim>\<open>(r["pnl_total"]/r["stake_total"]) if r["stake_total"] else 0.0\<close>. The guard is
  the truth value of the number: any stake total other than zero divides.
\<close>

definition league_roi :: "rat \<Rightarrow> rat \<Rightarrow> error + rat" where
  "league_roi pnl stake = (if stake \<noteq> 0 then py_div pnl stake else Inr 0)"

definition league_row :: "frame \<Rightarrow> val \<Rightarrow> error + league_kpis" where
  "league_row df_bets k =
     (let rs = filter (\<lambda>r. group_key (cell r ''league'') = k) (rows df_bets);
          st = group_sum rs ''cb_stake'';
          pn = group_sum rs ''cb_pnl''
      in bindE (league_roi pn st) (\<lambda>ro.
           Inr \<lparr>league = k, l_bets = length rs, l_stake_total = st, l_pnl_total = pn,
                l_ev_sum = group_sum rs ''ev_cb'', l_roi_simple = ro\<rparr>))"

text \<open>A function applied row by row; the first error ends the run.\<close>

fun mapE :: "('a \<Rightarrow> error + 'b) \<Rightarrow> 'a list \<Rightarrow> error + 'b list" where
  "mapE f [] = Inr []"
| "mapE f (x # xs) = bindE (f x) (\<lambda>y. bindE (mapE f xs) (\<lambda>ys. Inr (y # ys)))"

definition by_league :: "frame \<Rightarrow> error + league_kpis list option" where
  "by_league df_bets =
     (if length (rows df_bets) = 0 then Inr None
      else if ''league'' \<notin> set (columns df_bets) then Inl (KeyError ''league'')
      else if ''cb_action'' \<notin> set (columns df_bets) then Inl (KeyError ''cb_action'')
      else if ''cb_stake'' \<notin> set (columns df_bets) then Inl (KeyError ''cb_stake'')
      else if ''cb_pnl'' \<notin> set (columns df_bets) then Inl (KeyError ''cb_pnl'')
      else if ''ev_cb'' \<notin> set (columns df_bets) then Inl (KeyError ''ev_cb'')
      else if \<exists>r \<in> set (rows df_bets). \<exists>c \<in> {''cb_stake'', ''cb_pnl'', ''ev_cb''}.
                 as_number (cell r c) = None then Inl TypeError
      else bindE (mapE (league_row df_bets)
                    (remdups (map (\<lambda>r. group_key (cell r ''league'')) (rows df_bets))))
             (\<lambda>t. Inr (Some t)))"

section \<open>The script\<close>

text \<open>
  Lines 74 and 75: the sidebar lists the leagues and the actions of the collection. It
  reads both columns without a guard and sorts the leagues with Python's \<^verbatim>\<open>sorted\<close>.
\<close>

definition sidebar :: "frame \<Rightarrow> error + unit" where
  "sidebar df =
     (if ''league'' \<notin> set (columns df) then Inl (KeyError ''league'')
      else if \<not> sortable (column df ''league'') then Inl TypeError
      else if ''cb_action'' \<notin> set (columns df) then Inl (KeyError ''cb_action'')
      else Inr ())"

text \<open>
  Lines 71 to 103 for a given collection and the user's choices in the sidebar: the home
  KPIs.
\<close>

definition dashboard ::
  "pylib \<Rightarrow> (string \<times> series) list \<Rightarrow> string \<Rightarrow> nat \<Rightarrow> nat \<Rightarrow> string \<Rightarrow> error + kpis" where
  "dashboard L docs league_choice date_from date_to cb_action =
     bindE (fetch_df L docs) (\<lambda>df.
     bindE (sidebar df) (\<lambda>u.
     bindE (apply_filters L df league_choice date_from date_to cb_action) (\<lambda>df0.
     bindE (derive L df0) (\<lambda>p.
       home_kpis (fst p) (snd p)))))"

text \<open>
  Loader, filter and derived columns for a collection and the sidebar's choices, giving the
  pair \<open>(df_f, df_bets)\<close>.
\<close>

definition pipeline ::
  "pylib \<Rightarrow> (string \<times> series) list \<Rightarrow> string \<Rightarrow> nat \<Rightarrow> nat \<Rightarrow> string
     \<Rightarrow> error + frame \<times> frame" where
  "pipeline L docs league_choice date_from date_to cb_action =
     bindE (fetch_df L docs) (\<lambda>df.
     bindE (apply_filters L df league_choice date_from date_to cb_action) (derive L))"

text \<open>
  Lines 136 to 153, the Value and Edge tab: with a bet, the bet subset is sorted by
  \<open>ev_cb\<close> (one object column, in Python's order) and ten columns are selected by name; a
  name that is no column is a KeyError.
\<close>

definition top_columns :: "string list" where
  "top_columns = [''date'', ''league'', ''home_team'', ''away_team'', ''cb_action'', ''cb_stake'',
                  ''ev_cb'', ''edge_cb'', ''cb_pnl'', ''result'']"

definition value_tab :: "frame \<Rightarrow> error + unit" where
  "value_tab df_bets =
     (if length (rows df_bets) = 0 then Inr ()
      else if ''ev_cb'' \<notin> set (columns df_bets) then Inl (KeyError ''ev_cb'')
      else if \<not> sortable (column df_bets ''ev_cb'') then Inl TypeError
      else case filter (\<lambda>c. c \<notin> set (columns df_bets)) top_columns of
             [] \<Rightarrow> Inr ()
           | c # cs \<Rightarrow> Inl (KeyError c))"

text \<open>Lines 155 to 183, the Backtest tab: contingency table, hit rate and rollup.\<close>

definition backtest_tab ::
  "pylib \<Rightarrow> frame
     \<Rightarrow> error + (string option \<times> (string option \<times> nat) list) list option \<times> rat option
                \<times> league_kpis list option" where
  "backtest_tab L df_bets =
     bindE (conf L df_bets) (\<lambda>c.
     bindE (hit_rate L df_bets) (\<lambda>h.
     bindE (by_league df_bets) (\<lambda>g. Inr (c, h, g))))"

text \<open>
  The whole script, lines 71 to 193, in the order it runs: loader, sidebar, filter,
  derived columns, home KPIs, then the tabs (the Explorer tab selects only the columns
  it finds; the Bankroll tab sorts the filtered frame again and guards its columns). The
  first error ends the run. What it shows otherwise: the date bounds of the sidebar
  (lines 77 and 78), the home KPIs, and the three figures of the Backtest tab.

  The widgets of lines 80 to 84 are Streamlit's; the values they return are the
  arguments \<open>league_choice\<close>, \<open>date_from\<close>, \<open>date_to\<close> and \<open>cb_action\<close>. With no parsed
  date the bounds are NaT, and what the date widgets make of them is not modelled.
\<close>

record report =
  bounds :: "nat option \<times> nat option"
  home :: kpis
  confusion :: "(string option \<times> (string option \<times> nat) list) list option"
  hit_ratio :: "rat option"
  rollup :: "league_kpis list option"

definition script ::
  "pylib \<Rightarrow> (string \<times> series) list \<Rightarrow> string \<Rightarrow> nat \<Rightarrow> nat \<Rightarrow> string \<Rightarrow> error + report" where
  "script L docs league_choice date_from date_to cb_action =
     bindE (fetch_df L docs) (\<lambda>df.
     bindE (sidebar df) (\<lambda>u.
     bindE (apply_filters L df league_choice date_from date_to cb_action) (\<lambda>df0.
     bindE (derive L df0) (\<lambda>p.
     bindE (home_kpis (fst p) (snd p)) (\<lambda>k.
     bindE (value_tab (snd p)) (\<lambda>u'.
     bindE (backtest_tab L (snd p)) (\<lambda>b.
     bindE (sort_values (fst p)) (\<lambda>df_ts.
       Inr \<lparr>bounds = (min_date df, max_date df), home = k, confusion = fst b,
            hit_ratio = fst (snd b), rollup = snd (snd b)\<rparr>))))))))"

section \<open>The aggregates in the specification's words\<close>

text \<open>
  The values of a column that are not absent, in row order, and a value with absent read
  as 0: what the specification's sums, last value and maximum range over.
\<close>

definition present :: "val list \<Rightarrow> rat list" where
  "present vs = concat (map (\<lambda>v. case v of Num x \<Rightarrow> [x] | _ \<Rightarrow> []) vs)"

definition or_zero :: "val \<Rightarrow> rat" where
  "or_zero v = (case v of Num x \<Rightarrow> x | _ \<Rightarrow> 0)"

text \<open>The value of the scalar ROI in the specification's words.\<close>

definition roi_value :: "rat \<Rightarrow> rat \<Rightarrow> rat" where
  "roi_value pnl stake = (if 0 < stake then pnl / stake else 0)"

section \<open>A library instance for evaluation\<close>

text \<open>
  To run the model on a concrete collection the library functions need values. These
  instances read the strict, zero-padded form \<open>YYYY-MM-DD\<close> of a valid calendar day;
  no string is a number, and the text of a number is a placeholder. \<open>strict_lib\<close> is
  pandas before 3 (\<^verbatim>\<open>astype(str)\<close> makes the text \<open>nan\<close> of a missing value),
  \<open>strict_lib3\<close> is pandas 3 (a missing value stays missing).
\<close>

definition digit :: "char \<Rightarrow> nat option" where
  "digit c = map_of (zip ''0123456789'' [0, 1, 2, 3, 4, 5, 6, 7, 8, 9]) c"

fun digits :: "string \<Rightarrow> nat option" where
  "digits [] = None"
| "digits cs =
     (if \<forall>c \<in> set cs. digit c \<noteq> None
      then Some (foldl (\<lambda>n c. 10 * n + the (digit c)) 0 cs) else None)"

definition days_in_month :: "nat \<Rightarrow> nat \<Rightarrow> nat" where
  "days_in_month y m =
     (if m \<in> {4, 6, 9, 11} then 30
      else if m = 2 then (if y mod 4 = 0 \<and> (y mod 100 \<noteq> 0 \<or> y mod 400 = 0) then 29 else 28)
      else 31)"

definition parse_ymd :: "string \<Rightarrow> nat option" where
  "parse_ymd s =
     (if length s = 10 \<and> s ! 4 = CHR ''-'' \<and> s ! 7 = CHR ''-''
      then (case (digits (take 4 s), digits (take 2 (drop 5 s)), digits (drop 8 s)) of
              (Some y, Some m, Some d) \<Rightarrow>
                (if 1 \<le> m \<and> m \<le> 12 \<and> 1 \<le> d \<and> d \<le> days_in_month y m
                 then Some (y * 10000 + m * 100 + d) else None)
            | _ \<Rightarrow> None)
      else None)"

definition strict_lib :: pylib where
  "strict_lib =
     \<lparr>str_of = (\<lambda>v. ''?''),
      numeric_of = (\<lambda>s. None),
      datetime_of = (\<lambda>v. case v of Str s \<Rightarrow> parse_ymd s | _ \<Rightarrow> None),
      keeps_na = False\<rparr>"

definition strict_lib3 :: pylib where
  "strict_lib3 = strict_lib\<lparr>keeps_na := True\<rparr>"

section \<open>Example collections\<close>

text \<open>The three records of the specification's scenario, with the code's field names.\<close>

definition scenario :: "(string \<times> series) list" where
  "scenario =
     [(''doc1'', [(''date'', Str ''2024-01-01''), (''dia_id'', Num 1), (''cb_action'', Str ''H''),
                  (''cb_stake'', Num 10), (''cb_pnl'', Num 5), (''ev_H'', Num (12 / 100)),
                  (''result'', Str ''H'')]),
      (''doc2'', [(''date'', Str ''2024-01-02''), (''dia_id'', Num 1),
                  (''cb_action'', Str ''NO_BET'')]),
      (''doc3'', [(''date'', Str ''2024-01-03''), (''dia_id'', Num 1), (''cb_action'', Str ''D''),
                  (''cb_stake'', Num 10), (''cb_pnl'', Num (- 10)), (''ev_D'', Num (3 / 100)),
                  (''result'', Str ''A'')])]"

text \<open>
  Three documents of one day: a settled home bet, a document with neither an action nor
  a result, and a match without a bet; and the frame the loader makes of them.
\<close>

definition blank_docs :: "(string \<times> series) list" where
  "blank_docs =
     [(''a'', [(''date'', Str ''2024-01-01''), (''dia_id'', Num 1), (''cb_action'', Str ''H''),
               (''result'', Str ''A'')]),
      (''b'', [(''date'', Str ''2024-01-01''), (''dia_id'', Num 2)]),
      (''c'', [(''date'', Str ''2024-01-01''), (''dia_id'', Num 3),
               (''cb_action'', Str ''no_bet''), (''result'', Str ''A'')])]"

definition blank_frame :: frame where
  "blank_frame =
     \<lparr>columns = [''date'', ''dia_id'', ''cb_action'', ''result'', ''_doc_id''],
      rows = [[(''date'', Ts 20240101), (''dia_id'', Num 1), (''cb_action'', Str ''H''),
               (''result'', Str ''A''), (''_doc_id'', Str ''a'')],
              [(''date'', Ts 20240101), (''dia_id'', Num 2), (''cb_action'', NaN),
               (''result'', NaN), (''_doc_id'', Str ''b'')],
              [(''date'', Ts 20240101), (''dia_id'', Num 3), (''cb_action'', Str ''no_bet''),
               (''result'', Str ''A''), (''_doc_id'', Str ''c'')]]\<rparr>"

text \<open>
  Two documents of two leagues: a settled bet with a negative stake, and a match without
  a bet.
\<close>

definition neg_docs :: "(string \<times> series) list" where
  "neg_docs =
     [(''n1'', [(''date'', Str ''2024-03-01''), (''dia_id'', Num 1), (''league'', Str ''L1''),
                (''home_team'', Str ''X''), (''away_team'', Str ''Y''),
                (''cb_action'', Str ''H''), (''cb_stake'', Num (- 10)), (''cb_pnl'', Num 5),
                (''ev_H'', Num (1 / 10)), (''edge_H'', Num (1 / 50)),
                (''cb_bank_after'', Num 105), (''cb_dd_after'', Num 0), (''result'', Str ''H'')]),
      (''n2'', [(''date'', Str ''2024-03-02''), (''dia_id'', Num 1), (''league'', Str ''L2''),
                (''home_team'', Str ''X''), (''away_team'', Str ''Y''),
                (''cb_action'', Str ''NO_BET''), (''cb_bank_after'', Num 105)])]"

text \<open>
  The scenario with a league on every record, as the sidebar needs one. No record has
  \<open>cb_bank_after\<close> or \<open>cb_dd_after\<close>.
\<close>

definition scenario_league :: "(string \<times> series) list" where
  "scenario_league = map (\<lambda>d. (fst d, snd d @ [(''league'', Str ''L1'')])) scenario"

text \<open>
  The scenario with, on every record, the fields the script reads by name (league, teams,
  bank and drawdown) and an edge for the two actions.
\<close>

definition scenario_full :: "(string \<times> series) list" where
  "scenario_full =
     map (\<lambda>d. (fst d, snd d @ [(''league'', Str ''L1''), (''home_team'', Str ''X''),
                               (''away_team'', Str ''Y''), (''edge_H'', Num (1 / 50)),
                               (''edge_D'', Num (1 / 100)), (''cb_bank_after'', Num 100),
                               (''cb_dd_after'', Num 0)])) scenario"

text \<open>
  The collection \<open>blank_docs\<close> with these fields and a stake, a PnL and the figures of
  the home action on every record.
\<close>

definition blank_full :: "(string \<times> series) list" where
  "blank_full =
     map (\<lambda>d. (fst d, snd d @ [(''league'', Str ''L1''), (''home_team'', Str ''X''),
                               (''away_team'', Str ''Y''), (''cb_stake'', Num 10),
                               (''cb_pnl'', Num (- 10)), (''ev_H'', Num (1 / 10)),
                               (''edge_H'', Num (1 / 50)), (''cb_bank_after'', Num 100),
                               (''cb_dd_after'', Num 0)])) blank_docs"

text \<open>
  Three documents, not in order of date: a lost away bet without a recorded stake, a match
  without a bet and without bank figures, and a won home bet; and the filtered frame and
  the bet subset of the whole collection.
\<close>

definition bank_docs :: "(string \<times> series) list" where
  "bank_docs =
     [(''b2'', [(''date'', Str ''2024-04-02''), (''dia_id'', Num 1), (''cb_action'', Str ''A''),
                (''cb_pnl'', Num (- 10)), (''cb_bank_after'', Num 95),
                (''cb_dd_after'', Num (1 / 10))]),
      (''b3'', [(''date'', Str ''2024-04-03''), (''dia_id'', Num 1),
                (''cb_action'', Str ''NO_BET'')]),
      (''b1'', [(''date'', Str ''2024-04-01''), (''dia_id'', Num 1), (''cb_action'', Str ''H''),
                (''cb_stake'', Num 10), (''cb_pnl'', Num 5), (''cb_bank_after'', Num 105),
                (''cb_dd_after'', Num 0)])]"

definition bank_f :: frame where
  "bank_f =
     \<lparr>columns = [''date'', ''dia_id'', ''cb_action'', ''cb_stake'', ''cb_pnl'',
                 ''cb_bank_after'', ''cb_dd_after'', ''_doc_id'', ''is_bet''],
      rows = [[(''date'', Ts 20240401), (''dia_id'', Num 1), (''cb_action'', Str ''H''),
               (''cb_stake'', Num 10), (''cb_pnl'', Num 5), (''cb_bank_after'', Num 105),
               (''cb_dd_after'', Num 0), (''_doc_id'', Str ''b1''), (''is_bet'', Bool True)],
              [(''date'', Ts 20240402), (''dia_id'', Num 1), (''cb_action'', Str ''A''),
               (''cb_stake'', NaN), (''cb_pnl'', Num (- 10)), (''cb_bank_after'', Num 95),
               (''cb_dd_after'', Num (1 / 10)), (''_doc_id'', Str ''b2''),
               (''is_bet'', Bool True)],
              [(''date'', Ts 20240403), (''dia_id'', Num 1), (''cb_action'', Str ''NO_BET''),
               (''cb_stake'', NaN), (''cb_pnl'', NaN), (''cb_bank_after'', NaN),
               (''cb_dd_after'', NaN), (''_doc_id'', Str ''b3''), (''is_bet'', Bool False)]]\<rparr>"

definition bank_bets :: frame where
  "bank_bets =
     \<lparr>columns = [''date'', ''dia_id'', ''cb_action'', ''cb_stake'', ''cb_pnl'',
                 ''cb_bank_after'', ''cb_dd_after'', ''_doc_id'', ''is_bet'', ''ev_cb'',
                 ''edge_cb''],
      rows = [[(''date'', Ts 20240401), (''dia_id'', Num 1), (''cb_action'', Str ''H''),
               (''cb_stake'', Num 10), (''cb_pnl'', Num 5), (''cb_bank_after'', Num 105),
               (''cb_dd_after'', Num 0), (''_doc_id'', Str ''b1''), (''is_bet'', Bool True),
               (''ev_cb'', PyNone), (''edge_cb'', PyNone)],
              [(''date'', Ts 20240402), (''dia_id'', Num 1), (''cb_action'', Str ''A''),
               (''cb_stake'', NaN), (''cb_pnl'', Num (- 10)), (''cb_bank_after'', Num 95),
               (''cb_dd_after'', Num (1 / 10)), (''_doc_id'', Str ''b2''),
               (''is_bet'', Bool True), (''ev_cb'', PyNone), (''edge_cb'', PyNone)]]\<rparr>"

text \<open>
  Two documents, the second with a date that does not parse; the frame the loader makes of
  them, and what the filter over all leagues, all actions and the full date range returns.
\<close>

definition undated_docs :: "(string \<times> series) list" where
  "undated_docs =
     [(''u1'', [(''date'', Str ''2024-05-01''), (''dia_id'', Num 1)]),
      (''u2'', [(''date'', Str ''not-a-date''), (''dia_id'', Num 2)])]"

definition undated_frame :: frame where
  "undated_frame =
     \<lparr>columns = [''date'', ''dia_id'', ''_doc_id''],
      rows = [[(''date'', Ts 20240501), (''dia_id'', Num 1), (''_doc_id'', Str ''u1'')],
              [(''date'', NaN), (''dia_id'', Num 2), (''_doc_id'', Str ''u2'')]]\<rparr>"

definition dated_only :: frame where
  "dated_only =
     \<lparr>columns = [''date'', ''dia_id'', ''_doc_id''],
      rows = [[(''date'', Ts 20240501), (''dia_id'', Num 1), (''_doc_id'', Str ''u1'')]]\<rparr>"

text \<open>
  Six documents in no order: two days, a date that does not parse, and on the second day
  a missing \<open>dia_id\<close>; on the first day a \<open>dia_id\<close> that is a string next to one that is a
  number. The frame the loader makes of them, and what the filter over all leagues, all
  actions and the full date range returns.
\<close>

definition mixed_docs :: "(string \<times> series) list" where
  "mixed_docs =
     [(''m1'', [(''date'', Str ''2024-06-02''), (''dia_id'', Num 2)]),
      (''m2'', [(''date'', Str ''not-a-date''), (''dia_id'', Num 1)]),
      (''m3'', [(''date'', Str ''2024-06-01''), (''dia_id'', Str ''x'')]),
      (''m4'', [(''date'', Str ''2024-06-02'')]),
      (''m5'', [(''date'', Str ''2024-06-02''), (''dia_id'', Num 1)]),
      (''m6'', [(''date'', Str ''2024-06-01''), (''dia_id'', Num 7)])]"

definition mixed_frame :: frame where
  "mixed_frame =
     \<lparr>columns = [''date'', ''dia_id'', ''_doc_id''],
      rows = [[(''date'', Ts 20240602), (''dia_id'', Num 2), (''_doc_id'', Str ''m1'')],
              [(''date'', NaN), (''dia_id'', Num 1), (''_doc_id'', Str ''m2'')],
              [(''date'', Ts 20240601), (''dia_id'', Str ''x''), (''_doc_id'', Str ''m3'')],
              [(''date'', Ts 20240602), (''dia_id'', NaN), (''_doc_id'', Str ''m4'')],
              [(''date'', Ts 20240602), (''dia_id'', Num 1), (''_doc_id'', Str ''m5'')],
              [(''date'', Ts 20240601), (''dia_id'', Num 7), (''_doc_id'', Str ''m6'')]]\<rparr>"

definition mixed_sorted :: frame where
  "mixed_sorted =
     \<lparr>columns = [''date'', ''dia_id'', ''_doc_id''],
      rows = [[(''date'', Ts 20240601), (''dia_id'', Num 7), (''_doc_id'', Str ''m6'')],
              [(''date'', Ts 20240601), (''dia_id'', Str ''x''), (''_doc_id'', Str ''m3'')],
              [(''date'', Ts 20240602), (''dia_id'', Num 1), (''_doc_id'', Str ''m5'')],
              [(''date'', Ts 20240602), (''dia_id'', Num 2), (''_doc_id'', Str ''m1'')],
              [(''date'', Ts 20240602), (''dia_id'', NaN), (''_doc_id'', Str ''m4'')]]\<rparr>"

text \<open>
  The frame the loader makes of \<open>neg_docs\<close>; the filtered frame and the bet subset for the
  action \<open>NO_BET\<close> (one match, no bet) and for the league \<open>L3\<close>, which no document has (no
  match).
\<close>

definition neg_columns :: "string list" where
  "neg_columns = [''cb_stake'', ''cb_pnl'', ''ev_H'', ''edge_H'', ''cb_dd_after'', ''result'',
                  ''date'', ''dia_id'', ''league'', ''home_team'', ''away_team'', ''cb_action'',
                  ''cb_bank_after'', ''_doc_id'']"

definition neg_frame :: frame where
  "neg_frame =
     \<lparr>columns = neg_columns,
      rows = [[(''cb_stake'', Num (- 10)), (''cb_pnl'', Num 5), (''ev_H'', Num (1 / 10)),
               (''edge_H'', Num (1 / 50)), (''cb_dd_after'', Num 0), (''result'', Str ''H''),
               (''date'', Ts 20240301), (''dia_id'', Num 1), (''league'', Str ''L1''),
               (''home_team'', Str ''X''), (''away_team'', Str ''Y''), (''cb_action'', Str ''H''),
               (''cb_bank_after'', Num 105), (''_doc_id'', Str ''n1'')],
              [(''cb_stake'', NaN), (''cb_pnl'', NaN), (''ev_H'', NaN), (''edge_H'', NaN),
               (''cb_dd_after'', NaN), (''result'', NaN), (''date'', Ts 20240302),
               (''dia_id'', Num 1), (''league'', Str ''L2''), (''home_team'', Str ''X''),
               (''away_team'', Str ''Y''), (''cb_action'', Str ''NO_BET''),
               (''cb_bank_after'', Num 105), (''_doc_id'', Str ''n2'')]]\<rparr>"

definition neg_nobet_f :: frame where
  "neg_nobet_f =
     \<lparr>columns = neg_columns @ [''is_bet''],
      rows = [[(''cb_stake'', NaN), (''cb_pnl'', NaN), (''ev_H'', NaN), (''edge_H'', NaN),
               (''cb_dd_after'', NaN), (''result'', NaN), (''date'', Ts 20240302),
               (''dia_id'', Num 1), (''league'', Str ''L2''), (''home_team'', Str ''X''),
               (''away_team'', Str ''Y''), (''cb_action'', Str ''NO_BET''),
               (''cb_bank_after'', Num 105), (''_doc_id'', Str ''n2''),
               (''is_bet'', Bool False)]]\<rparr>"

definition neg_none_f :: frame where
  "neg_none_f = \<lparr>columns = neg_columns @ [''is_bet''], rows = []\<rparr>"

definition neg_no_bets :: frame where
  "neg_no_bets = \<lparr>columns = neg_columns @ [''is_bet'', ''ev_cb'', ''edge_cb''], rows = []\<rparr>"

section \<open>Basic facts\<close>

lemma map_of_set_item: "map_of (set_item r k v) = (map_of r)(k \<mapsto> v)"
  by (induction r) (auto simp: fun_eq_iff)

lemma get_set_item: "get (set_item r k v) c d = (if c = k then v else get r c d)"
  by (simp add: get_def map_of_set_item)

lemma cell_set_item: "cell (set_item r k v) c = (if c = k then v else cell r c)"
  by (simp add: cell_def get_set_item)

lemma upper_simps:
  "upper [] = []" "upper (c # cs) = upper_char c # upper cs"
  by (simp_all add: upper_def)

lemma upper_nan: "upper ''nan'' = ''NAN''"
  by (simp add: upper_def upper_char_def)

lemma action_of_set_item:
  "k \<noteq> ''cb_action'' \<Longrightarrow> action_of L (set_item r k v) = action_of L r"
  by (simp add: action_of_def cell_set_item)

lemma picked_action_set_item:
  "k \<noteq> ''cb_action'' \<Longrightarrow> picked_action L (set_item r k v) = picked_action L r"
  by (simp add: picked_action_def get_set_item)

lemma is_bet_set_item:
  "k \<noteq> ''cb_action'' \<Longrightarrow> is_bet L (set_item r k v) = is_bet L r"
  by (simp add: is_bet_def action_of_set_item)

lemma upper_None: "upper ''None'' = ''NONE''"
  by (simp add: upper_def upper_char_def)

lemma picked_action_na:
  "isna (get row ''cb_action'' (Str [])) \<Longrightarrow> picked_action L row \<in> {''NAN'', ''NONE''}"
  by (cases "get row ''cb_action'' (Str [])")
     (simp_all add: picked_action_def py_str_def upper_nan upper_None)

lemma picked_action_absent:
  "map_of row ''cb_action'' = None \<Longrightarrow> picked_action L row = []"
  by (simp add: picked_action_def get_def py_str_def upper_def)

section \<open>The field picker\<close>

text \<open>
  C5. The picker returns the field \<open>prefix_H\<close>, \<open>prefix_D\<close> or \<open>prefix_A\<close> of the row when the
  uppercased action text is \<open>H\<close>, \<open>D\<close> or \<open>A\<close>, and \<open>None\<close> for every other action:
  \<open>NO_BET\<close>, an unrecognised text, a missing action (NaN or None in the cell, or no such
  label in the row). Where the target field is not in the row it returns \<open>None\<close>. It is a
  function to values: there is no error to return.
\<close>

theorem pick_by_action_spec:
  "(picked_action L row = ''H'' \<longrightarrow> pick_by_action L row prefix = get row (prefix @ ''_H'') PyNone)
   \<and> (picked_action L row = ''D'' \<longrightarrow> pick_by_action L row prefix = get row (prefix @ ''_D'') PyNone)
   \<and> (picked_action L row = ''A'' \<longrightarrow> pick_by_action L row prefix = get row (prefix @ ''_A'') PyNone)
   \<and> (picked_action L row \<notin> {''H'', ''D'', ''A''} \<longrightarrow> pick_by_action L row prefix = PyNone)
   \<and> (picked_action L row = ''NO_BET'' \<longrightarrow> pick_by_action L row prefix = PyNone)
   \<and> (isna (get row ''cb_action'' (Str [])) \<longrightarrow> pick_by_action L row prefix = PyNone)
   \<and> (map_of row ''cb_action'' = None \<longrightarrow> pick_by_action L row prefix = PyNone)
   \<and> (picked_action L row = ''H'' \<and> map_of row (prefix @ ''_H'') = None
        \<longrightarrow> pick_by_action L row prefix = PyNone)
   \<and> (picked_action L row = ''D'' \<and> map_of row (prefix @ ''_D'') = None
        \<longrightarrow> pick_by_action L row prefix = PyNone)
   \<and> (picked_action L row = ''A'' \<and> map_of row (prefix @ ''_A'') = None
        \<longrightarrow> pick_by_action L row prefix = PyNone)"
proof (intro conjI impI)
  assume "isna (get row ''cb_action'' (Str []))"
  from picked_action_na [OF this, of L]
  show "pick_by_action L row prefix = PyNone"
    by (auto simp: pick_by_action_def Let_def)
next
  assume "map_of row ''cb_action'' = None"
  from picked_action_absent [OF this, of L]
  show "pick_by_action L row prefix = PyNone"
    by (simp add: pick_by_action_def Let_def)
qed (simp_all add: pick_by_action_def Let_def get_def)

theorem pick_by_action_spec_witness:
  "picked_action strict_lib [(''cb_action'', Str ''h''), (''ev_H'', Num (12 / 100))] = ''H''
   \<and> pick_by_action strict_lib [(''cb_action'', Str ''h''), (''ev_H'', Num (12 / 100))] ''ev'' = Num (12 / 100)
   \<and> pick_by_action strict_lib [(''cb_action'', Str ''h''), (''ev_H'', Num (12 / 100))] ''edge'' = PyNone
   \<and> pick_by_action strict_lib [(''cb_action'', Str ''no_bet''), (''ev_H'', Num (12 / 100))] ''ev'' = PyNone"
  using pick_by_action_spec [of strict_lib "[(''cb_action'', Str ''h''), (''ev_H'', Num (12 / 100))]" "''ev''"]
    pick_by_action_spec [of strict_lib "[(''cb_action'', Str ''h''), (''ev_H'', Num (12 / 100))]" "''edge''"]
    pick_by_action_spec [of strict_lib "[(''cb_action'', Str ''no_bet''), (''ev_H'', Num (12 / 100))]" "''ev''"]
  by (simp add: picked_action_def get_def py_str_def upper_def upper_char_def)

section \<open>The derived columns\<close>

lemma map_of_set_item_other: "c \<noteq> k \<Longrightarrow> map_of (set_item r k v) c = map_of r c"
  by (simp add: map_of_set_item)

lemma pick_by_action_set_item:
  assumes "k \<noteq> ''cb_action''" "k \<noteq> p @ ''_H''" "k \<noteq> p @ ''_D''" "k \<noteq> p @ ''_A''"
  shows "pick_by_action L (set_item r k v) p = pick_by_action L r p"
  using assms assms [symmetric]
  by (simp add: pick_by_action_def Let_def picked_action_set_item get_set_item)

lemma action_no_bet_present:
  assumes "action_of L r = Some ''NO_BET''"
  shows "picked_action L r = ''NO_BET''"
proof (cases "map_of r ''cb_action''")
  case None
  then have "action_of L r = None \<or> action_of L r = Some ''NAN''"
    by (simp add: action_of_def cell_def get_def astype_str_def py_str_def upper_nan)
  with assms show ?thesis by auto
next
  case (Some v)
  then have "upper (py_str L v) = ''NO_BET''"
    using assms by (simp add: action_of_def astype_str_def cell_def get_def split: if_splits)
  with Some show ?thesis
    by (simp add: picked_action_def get_def)
qed

lemma pick_by_action_no_bet: "\<not> is_bet L r \<Longrightarrow> pick_by_action L r p = PyNone"
  using action_no_bet_present [of L r] by (simp add: is_bet_def pick_by_action_def)

lemma is_bet_bet_row: "is_bet L (bet_row L r) = is_bet L r"
  by (simp add: bet_row_def Let_def is_bet_set_item)

lemma bet_row_ev_cb:
  "cell (bet_row L r) ''ev_cb'' = pick_by_action L r ''ev''"
  by (simp add: bet_row_def Let_def cell_set_item pick_by_action_set_item)

lemma bet_row_edge_cb:
  "cell (bet_row L r) ''edge_cb'' = pick_by_action L r ''edge''"
  by (simp add: bet_row_def Let_def cell_set_item pick_by_action_set_item)

lemma pick_by_action_bet_row:
  "pick_by_action L (bet_row L r) ''ev'' = pick_by_action L r ''ev''"
  "pick_by_action L (bet_row L r) ''edge'' = pick_by_action L r ''edge''"
  by (simp_all add: bet_row_def Let_def pick_by_action_set_item)

lemma cell_bet_row:
  "c \<notin> {''is_bet'', ''ev_cb'', ''edge_cb''} \<Longrightarrow> cell (bet_row L r) c = cell r c"
  by (simp add: bet_row_def Let_def cell_set_item)

lemma derive_eq:
  assumes "''cb_action'' \<in> set (columns df)"
  shows "\<exists>cs cs'. set cs = insert ''is_bet'' (set (columns df))
           \<and> set cs' = {''is_bet'', ''ev_cb'', ''edge_cb''} \<union> set (columns df)
           \<and> derive L df =
               Inr (\<lparr>columns = cs, rows = map (\<lambda>r. set_item r ''is_bet'' (Bool (is_bet L r))) (rows df)\<rparr>,
                    \<lparr>columns = cs', rows = map (bet_row L) (filter (is_bet L) (rows df))\<rparr>)"
proof -
  have "filter (\<lambda>r. cell r ''is_bet'' = Bool True)
          (map (\<lambda>r. set_item r ''is_bet'' (Bool (is_bet L r))) (rows df))
        = map (\<lambda>r. set_item r ''is_bet'' (Bool (is_bet L r))) (filter (is_bet L) (rows df))"
    by (simp add: filter_map o_def cell_set_item)
  then show ?thesis
    using assms
    by (auto simp: derive_def Let_def assign_def select_def bet_row_def o_def is_bet_set_item)
qed

lemma derive_eq_ex:
  assumes "''cb_action'' \<in> set (columns df)"
  shows "\<exists>df_f df_bets. derive L df = Inr (df_f, df_bets)
           \<and> set (columns df_f) = insert ''is_bet'' (set (columns df))
           \<and> set (columns df_bets) = {''is_bet'', ''ev_cb'', ''edge_cb''} \<union> set (columns df)
           \<and> rows df_f = map (\<lambda>r. set_item r ''is_bet'' (Bool (is_bet L r))) (rows df)
           \<and> rows df_bets = map (bet_row L) (filter (is_bet L) (rows df))"
  using derive_eq [OF assms, of L] by force

text \<open>
  C6. A row is a bet unless its uppercased action text is \<open>NO_BET\<close>. The derived columns
  \<open>ev_cb\<close> and \<open>edge_cb\<close> are assigned on the bet subset only: the filtered frame gains the
  column \<open>is_bet\<close> and nothing else, every row of the bet subset is a bet, and for a row
  that is no bet the picker gives \<open>None\<close>, not zero.
\<close>

theorem derive_bets_only:
  assumes "''cb_action'' \<in> set (columns df)"
  shows "(\<not> is_bet L x) = (action_of L x = Some ''NO_BET'')
     \<and> (\<exists>df_f df_bets. derive L df = Inr (df_f, df_bets)
          \<and> set (columns df_f) = insert ''is_bet'' (set (columns df))
          \<and> rows df_f = map (\<lambda>r. set_item r ''is_bet'' (Bool (is_bet L r))) (rows df)
          \<and> rows df_bets = map (bet_row L) (filter (is_bet L) (rows df))
          \<and> (\<forall>b \<in> set (rows df_bets).
                is_bet L b \<and> cell b ''is_bet'' = Bool True
                \<and> cell b ''ev_cb'' = pick_by_action L b ''ev''
                \<and> cell b ''edge_cb'' = pick_by_action L b ''edge'')
          \<and> (\<forall>r \<in> set (rows df). \<not> is_bet L r \<longrightarrow>
                cell (set_item r ''is_bet'' (Bool (is_bet L r))) ''is_bet'' = Bool False
                \<and> map_of (set_item r ''is_bet'' (Bool (is_bet L r))) ''ev_cb'' = map_of r ''ev_cb''
                \<and> map_of (set_item r ''is_bet'' (Bool (is_bet L r))) ''edge_cb'' = map_of r ''edge_cb''
                \<and> pick_by_action L r ''ev'' = PyNone \<and> pick_by_action L r ''edge'' = PyNone))"
proof -
  from derive_eq_ex [OF assms, of L]
  obtain df_f df_bets where d: "derive L df = Inr (df_f, df_bets)"
    and cf: "set (columns df_f) = insert ''is_bet'' (set (columns df))"
    and cb: "set (columns df_bets) = {''is_bet'', ''ev_cb'', ''edge_cb''} \<union> set (columns df)"
    and rf: "rows df_f = map (\<lambda>r. set_item r ''is_bet'' (Bool (is_bet L r))) (rows df)"
    and rb: "rows df_bets = map (bet_row L) (filter (is_bet L) (rows df))"
    by (elim exE conjE) (rule that)
  have bets: "\<forall>b \<in> set (rows df_bets).
                is_bet L b \<and> cell b ''is_bet'' = Bool True
                \<and> cell b ''ev_cb'' = pick_by_action L b ''ev''
                \<and> cell b ''edge_cb'' = pick_by_action L b ''edge''"
  proof
    fix b assume "b \<in> set (rows df_bets)"
    then obtain r where r: "is_bet L r" and b: "b = bet_row L r"
      using rb by auto
    have "cell (bet_row L r) ''is_bet'' = Bool (is_bet L r)"
      by (simp add: bet_row_def Let_def cell_set_item)
    then show "is_bet L b \<and> cell b ''is_bet'' = Bool True
                \<and> cell b ''ev_cb'' = pick_by_action L b ''ev''
                \<and> cell b ''edge_cb'' = pick_by_action L b ''edge''"
      using r b by (simp add: is_bet_bet_row bet_row_ev_cb bet_row_edge_cb pick_by_action_bet_row)
  qed
  have nonbets: "\<forall>r \<in> set (rows df). \<not> is_bet L r \<longrightarrow>
                cell (set_item r ''is_bet'' (Bool (is_bet L r))) ''is_bet'' = Bool False
                \<and> map_of (set_item r ''is_bet'' (Bool (is_bet L r))) ''ev_cb'' = map_of r ''ev_cb''
                \<and> map_of (set_item r ''is_bet'' (Bool (is_bet L r))) ''edge_cb'' = map_of r ''edge_cb''
                \<and> pick_by_action L r ''ev'' = PyNone \<and> pick_by_action L r ''edge'' = PyNone"
    by (simp add: cell_set_item map_of_set_item pick_by_action_no_bet)
  have iff: "(\<not> is_bet L x) = (action_of L x = Some ''NO_BET'')"
    by (simp add: is_bet_def)
  show ?thesis
    apply (rule conjI [OF iff])
    apply (rule exI [of _ df_f])
    apply (rule exI [of _ df_bets])
    apply (intro conjI d cf rf rb bets nonbets)
    done
qed

lemma blank_frame_cb_action: "''cb_action'' \<in> set (columns blank_frame)"
  by (simp add: blank_frame_def)

theorem derive_bets_only_witness:
  "''cb_action'' \<in> set (columns blank_frame)
   \<and> (\<exists>df_f df_bets. derive strict_lib blank_frame = Inr (df_f, df_bets)
        \<and> length (rows df_f) = 3 \<and> length (rows df_bets) = 2
        \<and> (\<forall>b \<in> set (rows df_bets). is_bet strict_lib b))"
proof -
  have two: "length (filter (is_bet strict_lib) (rows blank_frame)) = 2"
    by (simp add: blank_frame_def is_bet_def action_of_def cell_def get_def astype_str_def
        py_str_def strict_lib_def upper_def upper_char_def)
  from derive_bets_only [OF blank_frame_cb_action, of strict_lib, THEN conjunct2]
  obtain df_f df_bets where d: "derive strict_lib blank_frame = Inr (df_f, df_bets)"
    and rf: "rows df_f
             = map (\<lambda>r. set_item r ''is_bet'' (Bool (is_bet strict_lib r))) (rows blank_frame)"
    and rb: "rows df_bets = map (bet_row strict_lib) (filter (is_bet strict_lib) (rows blank_frame))"
    and all: "\<forall>b \<in> set (rows df_bets).
                is_bet strict_lib b \<and> cell b ''is_bet'' = Bool True
                \<and> cell b ''ev_cb'' = pick_by_action strict_lib b ''ev''
                \<and> cell b ''edge_cb'' = pick_by_action strict_lib b ''edge''"
    by (elim exE conjE) (rule that)
  from all have bets: "\<forall>b \<in> set (rows df_bets). is_bet strict_lib b"
    by simp
  have l3: "length (rows df_f) = 3"
    by (simp add: rf blank_frame_def)
  have l2: "length (rows df_bets) = 2"
    by (simp add: rb two)
  show ?thesis
    apply (rule conjI [OF blank_frame_cb_action])
    apply (rule exI [of _ df_f])
    apply (rule exI [of _ df_bets])
    apply (intro conjI d l3 l2 bets)
    done
qed

section \<open>What the loader guarantees\<close>

lemma columns_map_col [simp]: "columns (map_col c f df) = columns df"
  by (simp add: map_col_def)

lemma rows_map_col: "rows (map_col c f df) = map (\<lambda>r. set_item r c (f (cell r c))) (rows df)"
  by (simp add: map_col_def)

lemma columns_coerce_numeric [simp]: "columns (coerce_numeric L df c) = columns df"
  by (simp add: coerce_numeric_def)

lemma as_float_to_numeric: "as_float (to_numeric L v) \<noteq> None"
  by (cases v) (simp_all add: to_numeric_def split: option.splits)

lemma map_col_same:
  assumes "\<And>v. P (f v)" "r \<in> set (rows (map_col c f df))"
  shows "P (cell r c)"
  using assms by (auto simp: rows_map_col cell_set_item)

lemma map_col_other:
  assumes "\<forall>r \<in> set (rows df). P (cell r c)" "c \<noteq> c'" "r \<in> set (rows (map_col c' f df))"
  shows "P (cell r c)"
  using assms by (auto simp: rows_map_col cell_set_item)

lemma coerce_numeric_other:
  assumes "\<forall>r \<in> set (rows df). P (cell r c)" "c \<noteq> c'"
  shows "\<forall>r \<in> set (rows (coerce_numeric L df c')). P (cell r c)"
  using assms map_col_other [of df P c c'] by (auto simp: coerce_numeric_def)

lemma coerce_numeric_same:
  assumes "c \<in> set (columns df)"
  shows "\<forall>r \<in> set (rows (coerce_numeric L df c)). as_float (cell r c) \<noteq> None"
  using assms map_col_same [of "\<lambda>v. as_float v \<noteq> None" "to_numeric L" _ c df]
  by (auto simp: coerce_numeric_def as_float_to_numeric)

lemma coerce_numeric_keeps:
  assumes "\<forall>r \<in> set (rows df). as_float (cell r c) \<noteq> None"
  shows "\<forall>r \<in> set (rows (coerce_numeric L df c')). as_float (cell r c) \<noteq> None"
proof (cases "c = c'")
  case False
  with assms show ?thesis by (rule coerce_numeric_other)
next
  case True
  show ?thesis
  proof (cases "c' \<in> set (columns df)")
    case True
    with \<open>c = c'\<close> show ?thesis using coerce_numeric_same [of c' df L] by simp
  next
    case False
    with assms show ?thesis by (simp add: coerce_numeric_def)
  qed
qed

lemma length_rows_coerce_numeric [simp]:
  "length (rows (coerce_numeric L df c)) = length (rows df)"
  by (simp add: coerce_numeric_def map_col_def)

lemma fetch_df_columns:
  assumes "fetch_df L docs = Inr df"
  shows "''date'' \<in> set (columns df)"
  using assms
  by (auto simp: fetch_df_def Let_def numeric_columns_def split: if_splits)

lemma fetch_df_length:
  assumes "fetch_df L docs = Inr df"
  shows "length (rows df) = length docs"
  using assms
  by (auto simp: fetch_df_def Let_def numeric_columns_def map_col_def DataFrame_def
      split: if_splits)

lemma to_datetime_cases: "to_datetime L v = NaN \<or> (\<exists>n. to_datetime L v = Ts n)"
  by (simp add: to_datetime_def split: option.splits)

lemma fetch_df_date:
  assumes "fetch_df L docs = Inr df" "r \<in> set (rows df)"
  shows "cell r ''date'' = NaN \<or> (\<exists>n. cell r ''date'' = Ts n)"
proof -
  let ?P = "\<lambda>v. v = NaN \<or> (\<exists>n. v = Ts n)"
  let ?d0 = "map_col ''date'' (to_datetime L) (DataFrame (map to_row docs))"
  have 0: "\<forall>r \<in> set (rows ?d0). ?P (cell r ''date'')"
    using map_col_same [of ?P "to_datetime L" _ "''date''"] to_datetime_cases by blast
  have 1: "\<forall>r \<in> set (rows (coerce_numeric L ?d0 ''cb_stake'')). ?P (cell r ''date'')"
    using 0 by (rule coerce_numeric_other) simp
  have 2: "\<forall>r \<in> set (rows (coerce_numeric L (coerce_numeric L ?d0 ''cb_stake'') ''cb_pnl'')).
             ?P (cell r ''date'')"
    using 1 by (rule coerce_numeric_other) simp
  have 3: "\<forall>r \<in> set (rows (coerce_numeric L (coerce_numeric L (coerce_numeric L ?d0 ''cb_stake'')
              ''cb_pnl'') ''cb_bank_after'')). ?P (cell r ''date'')"
    using 2 by (rule coerce_numeric_other) simp
  have 4: "\<forall>r \<in> set (rows (coerce_numeric L (coerce_numeric L (coerce_numeric L
              (coerce_numeric L ?d0 ''cb_stake'') ''cb_pnl'') ''cb_bank_after'') ''cb_dd_after'')).
             ?P (cell r ''date'')"
    using 3 by (rule coerce_numeric_other) simp
  have "df = coerce_numeric L (coerce_numeric L (coerce_numeric L
              (coerce_numeric L ?d0 ''cb_stake'') ''cb_pnl'') ''cb_bank_after'') ''cb_dd_after''"
    using assms(1) by (simp add: fetch_df_def Let_def numeric_columns_def split: if_splits)
  with 4 assms(2) show ?thesis by blast
qed

lemma fetch_df_numeric:
  assumes "fetch_df L docs = Inr df" "c \<in> set numeric_columns" "c \<in> set (columns df)"
    "r \<in> set (rows df)"
  shows "as_float (cell r c) \<noteq> None"
proof -
  let ?d0 = "map_col ''date'' (to_datetime L) (DataFrame (map to_row docs))"
  let ?d1 = "coerce_numeric L ?d0 ''cb_stake''"
  let ?d2 = "coerce_numeric L ?d1 ''cb_pnl''"
  let ?d3 = "coerce_numeric L ?d2 ''cb_bank_after''"
  let ?d4 = "coerce_numeric L ?d3 ''cb_dd_after''"
  have df: "df = ?d4"
    using assms(1) by (simp add: fetch_df_def Let_def numeric_columns_def split: if_splits)
  then have cols: "c \<in> set (columns ?d0)"
    using assms(3) by simp
  have k: "\<forall>r \<in> set (rows d). as_float (cell r c) \<noteq> None \<Longrightarrow>
           \<forall>r \<in> set (rows (coerce_numeric L d c')). as_float (cell r c) \<noteq> None" for d c'
    by (rule coerce_numeric_keeps)
  have s: "c \<in> set (columns d) \<Longrightarrow>
           \<forall>r \<in> set (rows (coerce_numeric L d c)). as_float (cell r c) \<noteq> None" for d
    by (rule coerce_numeric_same)
  consider "c = ''cb_stake''" | "c = ''cb_pnl''" | "c = ''cb_bank_after''" | "c = ''cb_dd_after''"
    using assms(2) by (auto simp: numeric_columns_def)
  then have "\<forall>r \<in> set (rows ?d4). as_float (cell r c) \<noteq> None"
  proof cases
    case 1
    with cols have "\<forall>r \<in> set (rows ?d1). as_float (cell r c) \<noteq> None"
      using s [of ?d0] by simp
    then have "\<forall>r \<in> set (rows ?d2). as_float (cell r c) \<noteq> None" by (rule k)
    then have "\<forall>r \<in> set (rows ?d3). as_float (cell r c) \<noteq> None" by (rule k)
    then show ?thesis by (rule k)
  next
    case 2
    with cols have "\<forall>r \<in> set (rows ?d2). as_float (cell r c) \<noteq> None"
      using s [of ?d1] by simp
    then have "\<forall>r \<in> set (rows ?d3). as_float (cell r c) \<noteq> None" by (rule k)
    then show ?thesis by (rule k)
  next
    case 3
    with cols have "\<forall>r \<in> set (rows ?d3). as_float (cell r c) \<noteq> None"
      using s [of ?d2] by simp
    then show ?thesis by (rule k)
  next
    case 4
    with cols show ?thesis
      using s [of ?d3] by simp
  qed
  with df assms(4) show ?thesis by blast
qed

section \<open>What the filter and the derived columns keep\<close>

lemma apply_filters_Inr:
  assumes "apply_filters L df lg lo hi act = Inr out"
  shows "\<exists>P. rows out = sort_key row_key (filter P (rows df)) \<and> columns out = columns df"
proof -
  from assms obtain d where s: "sort_values d = Inr out" and c: "columns d = columns df"
    and r: "\<exists>P. rows d = filter P (rows df)"
  proof -
    let ?p1 = "\<lambda>r. cell r ''league'' = Str lg"
    let ?p2 = "\<lambda>r. action_of L r = Some act"
    let ?p3 = "\<lambda>r. date_ge (cell r ''date'') lo \<and> date_le (cell r ''date'') hi"
    let ?o1 = "if lg \<noteq> ''ALL'' then select ?p1 df else df"
    let ?o2 = "if act \<noteq> ''ALL'' then select ?p2 ?o1 else ?o1"
    let ?o3 = "select ?p3 ?o2"
    have 1: "sort_values ?o3 = Inr out"
      using assms by (simp add: apply_filters_def Let_def split: if_splits)
    have 2: "columns ?o3 = columns df"
      by (simp add: select_def)
    have "rows ?o3 = filter (\<lambda>r. (lg \<noteq> ''ALL'' \<longrightarrow> ?p1 r) \<and> (act \<noteq> ''ALL'' \<longrightarrow> ?p2 r) \<and> ?p3 r) (rows df)"
      by (auto simp: select_def intro!: filter_cong)
    then have 3: "\<exists>P. rows ?o3 = filter P (rows df)"
      by blast
    from 1 2 3 show ?thesis by (rule that)
  qed
  from s have "rows out = sort_key row_key (rows d)" "columns out = columns d"
    by (auto simp: sort_values_def split: if_splits)
  with c r show ?thesis by auto
qed

lemma apply_filters_subset:
  assumes "apply_filters L df lg lo hi act = Inr out"
  shows "set (rows out) \<subseteq> set (rows df)" "columns out = columns df"
    "sorted (map row_key (rows out))"
  using apply_filters_Inr [OF assms] by (auto simp: sorted_sort_key)

lemma pipeline_Inr:
  assumes "pipeline L docs lg lo hi act = Inr (df_f, df_bets)"
  shows "\<exists>df df0. fetch_df L docs = Inr df \<and> apply_filters L df lg lo hi act = Inr df0
           \<and> derive L df0 = Inr (df_f, df_bets)"
  using assms by (auto simp: pipeline_def bindE_def split: sum.splits)

lemma derive_Inr:
  assumes "derive L df = Inr (df_f, df_bets)"
  shows "''cb_action'' \<in> set (columns df)"
    "set (columns df_f) = insert ''is_bet'' (set (columns df))"
    "set (columns df_bets) = {''is_bet'', ''ev_cb'', ''edge_cb''} \<union> set (columns df)"
    "rows df_f = map (\<lambda>r. set_item r ''is_bet'' (Bool (is_bet L r))) (rows df)"
    "rows df_bets = map (bet_row L) (filter (is_bet L) (rows df))"
proof -
  show c: "''cb_action'' \<in> set (columns df)"
    using assms by (auto simp: derive_def split: if_splits)
  from derive_eq_ex [OF c, of L] assms
  show "set (columns df_f) = insert ''is_bet'' (set (columns df))"
    "set (columns df_bets) = {''is_bet'', ''ev_cb'', ''edge_cb''} \<union> set (columns df)"
    "rows df_f = map (\<lambda>r. set_item r ''is_bet'' (Bool (is_bet L r))) (rows df)"
    "rows df_bets = map (bet_row L) (filter (is_bet L) (rows df))"
    by auto
qed

lemma row_key_set_item:
  "k \<noteq> ''date'' \<Longrightarrow> k \<noteq> ''dia_id'' \<Longrightarrow> row_key (set_item r k v) = row_key r"
  by (simp add: row_key_def cell_set_item)

lemma numeric_columns_not_derived:
  assumes "c \<in> set numeric_columns"
  shows "c \<notin> {''is_bet'', ''ev_cb'', ''edge_cb''}"
  using assms by (auto simp: numeric_columns_def)

lemma pipeline_float:
  assumes "pipeline L docs lg lo hi act = Inr (df_f, df_bets)" "c \<in> set numeric_columns"
  shows "c \<in> set (columns df_f) \<Longrightarrow> \<forall>r \<in> set (rows df_f). as_float (cell r c) \<noteq> None"
    and "c \<in> set (columns df_bets) \<Longrightarrow> \<forall>r \<in> set (rows df_bets). as_float (cell r c) \<noteq> None"
proof -
  from pipeline_Inr [OF assms(1)] obtain df df0 where f: "fetch_df L docs = Inr df"
    and a: "apply_filters L df lg lo hi act = Inr df0" and d: "derive L df0 = Inr (df_f, df_bets)"
    by blast
  note nd = numeric_columns_not_derived [OF assms(2)]
  note sub = apply_filters_subset(1,2) [OF a]
  note dr = derive_Inr [OF d]
  have base: "c \<in> set (columns df) \<Longrightarrow> r \<in> set (rows df0) \<Longrightarrow> as_float (cell r c) \<noteq> None" for r
    using fetch_df_numeric [OF f assms(2)] sub(1) by blast
  { assume "c \<in> set (columns df_f)"
    then have c: "c \<in> set (columns df)"
      using nd sub(2) by (simp add: dr(2))
    show "\<forall>r \<in> set (rows df_f). as_float (cell r c) \<noteq> None"
      using base [OF c] nd by (auto simp: dr(4) cell_set_item) }
  { assume "c \<in> set (columns df_bets)"
    then have c: "c \<in> set (columns df)"
      using nd sub(2) by (simp add: dr(3))
    show "\<forall>r \<in> set (rows df_bets). as_float (cell r c) \<noteq> None"
      using base [OF c] nd by (auto simp: dr(5) cell_bet_row) }
qed

lemma pipeline_sorted:
  assumes "pipeline L docs lg lo hi act = Inr (df_f, df_bets)"
  shows "sorted (map row_key (rows df_f))"
proof -
  from pipeline_Inr [OF assms] obtain df df0 where
    a: "apply_filters L df lg lo hi act = Inr df0" and d: "derive L df0 = Inr (df_f, df_bets)"
    by blast
  have "map row_key (rows df_f) = map row_key (rows df0)"
    by (simp add: derive_Inr(4) [OF d] o_def row_key_set_item)
  then show ?thesis
    using apply_filters_subset(3) [OF a] by simp
qed

section \<open>Evaluation on concrete collections\<close>

lemmas eval_row =
  cell_def get_def action_of_def result_of_def picked_action_def astype_str_def py_str_def
  upper_def upper_char_def is_bet_def hit_def pick_by_action_def

lemmas eval_lib = strict_lib_def strict_lib3_def

lemmas eval_frame =
  DataFrame_def reindex_def to_row_def map_col_def assign_def select_def
  coerce_numeric_def numeric_columns_def to_datetime_def to_numeric_def

lemmas eval_filter =
  apply_filters_def sort_values_def row_key_def date_ge_def date_le_def

lemmas eval_kpis =
  home_kpis_def total_def float_col_def bank_final_def max_dd_def roi_simple_def py_div_def
  fillna_def dropna_def bindE_def

lemma sortable_list_all:
  "sortable vs =
     list_all (\<lambda>v. list_all (\<lambda>w. kind v = None \<or> kind w = None \<or> kind v = kind w) vs) vs"
  by (simp add: sortable_def list_all_iff)

lemmas eval_tabs =
  sidebar_def sortable_list_all column_def value_tab_def top_columns_def backtest_tab_def
  conf_def labels_def hit_rate_def by_league_def league_row_def league_roi_def group_sum_def
  group_key_def

lemmas eval_script =
  script_def fetch_df_def eval_frame eval_row eval_lib eval_filter eval_kpis eval_tabs
  derive_def min_date_def max_date_def dates_def Let_def

lemma parse_ymd_202401: "parse_ymd ''2024-01-01'' = Some 20240101"
  "parse_ymd ''2024-01-02'' = Some 20240102" "parse_ymd ''2024-01-03'' = Some 20240103"
  by (simp_all add: parse_ymd_def digit_def days_in_month_def)

lemma parse_ymd_202403: "parse_ymd ''2024-03-01'' = Some 20240301"
  "parse_ymd ''2024-03-02'' = Some 20240302"
  by (simp_all add: parse_ymd_def digit_def days_in_month_def)

lemma parse_ymd_202404: "parse_ymd ''2024-04-01'' = Some 20240401"
  "parse_ymd ''2024-04-02'' = Some 20240402" "parse_ymd ''2024-04-03'' = Some 20240403"
  by (simp_all add: parse_ymd_def digit_def days_in_month_def)

lemma parse_ymd_20240501: "parse_ymd ''2024-05-01'' = Some 20240501"
  by (simp add: parse_ymd_def digit_def days_in_month_def)

lemma parse_ymd_202406: "parse_ymd ''2024-06-01'' = Some 20240601"
  "parse_ymd ''2024-06-02'' = Some 20240602"
  by (simp_all add: parse_ymd_def digit_def days_in_month_def)

lemma parse_ymd_not_a_date: "parse_ymd ''not-a-date'' = None"
  by (simp add: parse_ymd_def digit_def)

section \<open>The guarded divisions\<close>

text \<open>
  Neither guard lets a zero divisor through: the two ROI computations never end in a
  ZeroDivisionError, which the bare division does at zero.
\<close>

lemma py_div_zero: "py_div p 0 = Inl ZeroDivisionError"
  by (simp add: py_div_def)

lemma roi_simple_Inr: "roi_simple p s = Inr (roi_value p s)"
  by (simp add: roi_simple_def roi_value_def py_div_def)

lemma league_roi_Inr: "league_roi p s = Inr (if s \<noteq> 0 then p / s else 0)"
  by (simp add: league_roi_def py_div_def)

section \<open>The aggregates\<close>

lemma float_col_Inr:
  assumes "c \<in> set (columns df)" "\<forall>r \<in> set (rows df). as_float (cell r c) \<noteq> None"
  shows "float_col df c = Inr (map (\<lambda>r. the (as_float (cell r c))) (rows df))"
  using assms by (simp add: float_col_def)

lemma as_float_cases: "as_float v \<noteq> None \<Longrightarrow> v = NaN \<or> (\<exists>x. v = Num x)"
  by (cases v) simp_all

lemma fillna_as_float: "as_float v \<noteq> None \<Longrightarrow> fillna 0 (the (as_float v)) = or_zero v"
  by (cases v) (simp_all add: fillna_def or_zero_def)

lemma dropna_as_float:
  "\<forall>v \<in> set vs. as_float v \<noteq> None \<Longrightarrow> dropna (map (\<lambda>v. the (as_float v)) vs) = present vs"
proof (induction vs)
  case Nil
  show ?case by (simp add: dropna_def present_def)
next
  case (Cons v vs)
  then have "as_float v \<noteq> None" and "dropna (map (\<lambda>v. the (as_float v)) vs) = present vs"
    by simp_all
  then show ?case
    by (cases v) (simp_all add: dropna_def present_def)
qed

lemma total_eq:
  assumes "c \<in> set (columns df)" "\<forall>r \<in> set (rows df). as_float (cell r c) \<noteq> None"
  shows "total df c = Inr (sum_list (map or_zero (column df c)))"
proof -
  have m: "map (fillna 0) (map (\<lambda>r. the (as_float (cell r c))) (rows df)) = map or_zero (column df c)"
    using assms(2) by (simp add: column_def fillna_as_float)
  have "total df c = Inr (sum_list (map (fillna 0) (map (\<lambda>r. the (as_float (cell r c))) (rows df))))"
    using float_col_Inr [OF assms] by (cases "rows df") (simp_all add: total_def)
  then show ?thesis
    by (simp only: m)
qed

lemma bank_final_eq:
  assumes "''cb_bank_after'' \<in> set (columns df)"
    "\<forall>r \<in> set (rows df). as_float (cell r ''cb_bank_after'') \<noteq> None"
  shows "bank_final df =
           Inr (if present (column df ''cb_bank_after'') = [] then None
                else Some (last (present (column df ''cb_bank_after''))))"
proof -
  have "dropna (map (\<lambda>r. the (as_float (cell r ''cb_bank_after''))) (rows df))
        = present (column df ''cb_bank_after'')"
    using dropna_as_float [of "column df ''cb_bank_after''"] assms(2)
    by (simp add: column_def o_def)
  then show ?thesis
    using float_col_Inr [OF assms] by (simp add: bank_final_def)
qed

lemma fold_max_Max: "fold max ys (y::rat) = Max (set (y # ys))"
  by (rule Max.set_eq_fold [symmetric])

lemma max_dd_eq:
  assumes "''cb_dd_after'' \<in> set (columns df)"
    "\<forall>r \<in> set (rows df). as_float (cell r ''cb_dd_after'') \<noteq> None"
  shows "max_dd df =
           Inr (if present (column df ''cb_dd_after'') = [] then None
                else Some (Max (set (present (column df ''cb_dd_after'')))))"
proof -
  have "dropna (map (\<lambda>r. the (as_float (cell r ''cb_dd_after''))) (rows df))
        = present (column df ''cb_dd_after'')"
    using dropna_as_float [of "column df ''cb_dd_after''"] assms(2)
    by (simp add: column_def o_def)
  then show ?thesis
    using float_col_Inr [OF assms]
    by (cases "present (column df ''cb_dd_after'')") (simp_all add: max_dd_def fold_max_Max)
qed

lemma column_float_cells:
  assumes "\<forall>r \<in> set (rows df). as_float (cell r c) \<noteq> None"
  shows "\<forall>v \<in> set (column df c). v = NaN \<or> (\<exists>x. v = Num x)"
proof
  fix v assume "v \<in> set (column df c)"
  then obtain r where "r \<in> set (rows df)" "v = cell r c"
    by (auto simp: column_def)
  with assms show "v = NaN \<or> (\<exists>x. v = Num x)"
    using as_float_cases [of v] by blast
qed

text \<open>
  C4. For the filtered frame and the bet subset of a collection, with the four numeric
  columns in the frame: the rows of the filtered frame are in chronological order (sorted
  by date, then \<open>dia_id\<close>); the stake total and the PnL total are the sums of \<open>cb_stake\<close> and
  \<open>cb_pnl\<close> over the bet subset with an absent value as 0; the final bank is the last value
  of \<open>cb_bank_after\<close> that is not absent, in row order over the filtered frame, and absent
  when there is none; the maximal drawdown is the maximum of the values of \<open>cb_dd_after\<close>
  that are not absent, and absent when there is none. Each cell of these columns is a
  number or NaN.
\<close>

theorem kpi_totals:
  assumes "pipeline L docs lg lo hi act = Inr (df_f, df_bets)"
    and "''cb_stake'' \<in> set (columns df_bets)" and "''cb_pnl'' \<in> set (columns df_bets)"
    and "''cb_bank_after'' \<in> set (columns df_f)" and "''cb_dd_after'' \<in> set (columns df_f)"
  shows "sorted (map row_key (rows df_f))
     \<and> (\<forall>v \<in> set (column df_bets ''cb_stake'') \<union> set (column df_bets ''cb_pnl'')
              \<union> set (column df_f ''cb_bank_after'') \<union> set (column df_f ''cb_dd_after'').
           v = NaN \<or> (\<exists>x. v = Num x))
     \<and> (\<exists>k. home_kpis df_f df_bets = Inr k
          \<and> matches k = length (rows df_f) \<and> bets k = length (rows df_bets)
          \<and> stake_total k = sum_list (map or_zero (column df_bets ''cb_stake''))
          \<and> pnl_total k = sum_list (map or_zero (column df_bets ''cb_pnl''))
          \<and> bank k = (if present (column df_f ''cb_bank_after'') = [] then None
                       else Some (last (present (column df_f ''cb_bank_after''))))
          \<and> drawdown k = (if present (column df_f ''cb_dd_after'') = [] then None
                           else Some (Max (set (present (column df_f ''cb_dd_after''))))))"
proof -
  have n: "''cb_stake'' \<in> set numeric_columns" "''cb_pnl'' \<in> set numeric_columns"
    "''cb_bank_after'' \<in> set numeric_columns" "''cb_dd_after'' \<in> set numeric_columns"
    by (simp_all add: numeric_columns_def)
  note f1 = pipeline_float(2) [OF assms(1) n(1) assms(2)]
  note f2 = pipeline_float(2) [OF assms(1) n(2) assms(3)]
  note f3 = pipeline_float(1) [OF assms(1) n(3) assms(4)]
  note f4 = pipeline_float(1) [OF assms(1) n(4) assms(5)]
  have cells: "\<forall>v \<in> set (column df_bets ''cb_stake'') \<union> set (column df_bets ''cb_pnl'')
              \<union> set (column df_f ''cb_bank_after'') \<union> set (column df_f ''cb_dd_after'').
           v = NaN \<or> (\<exists>x. v = Num x)"
    using column_float_cells [OF f1] column_float_cells [OF f2] column_float_cells [OF f3]
      column_float_cells [OF f4]
    by (simp only: ball_Un)
  let ?k = "\<lparr>matches = length (rows df_f), bets = length (rows df_bets),
            stake_total = sum_list (map or_zero (column df_bets ''cb_stake'')),
            pnl_total = sum_list (map or_zero (column df_bets ''cb_pnl'')),
            roi = roi_value (sum_list (map or_zero (column df_bets ''cb_pnl'')))
                    (sum_list (map or_zero (column df_bets ''cb_stake''))),
            bank = (if present (column df_f ''cb_bank_after'') = [] then None
                    else Some (last (present (column df_f ''cb_bank_after'')))),
            drawdown = (if present (column df_f ''cb_dd_after'') = [] then None
                        else Some (Max (set (present (column df_f ''cb_dd_after'')))))\<rparr>"
  have k: "home_kpis df_f df_bets = Inr ?k"
    by (simp only: home_kpis_def bindE_def total_eq [OF assms(2) f1] total_eq [OF assms(3) f2]
        roi_simple_Inr bank_final_eq [OF assms(4) f3] max_dd_eq [OF assms(5) f4] sum.case)
  show ?thesis
    apply (intro conjI pipeline_sorted [OF assms(1)] cells)
    apply (rule exI [of _ ?k])
    apply (rule conjI [OF k])
    apply simp
    done
qed

lemma bank_pipeline:
  "pipeline strict_lib bank_docs ''ALL'' 20240401 20240403 ''ALL'' = Inr (bank_f, bank_bets)"
  by (simp add: pipeline_def bindE_def bank_docs_def bank_f_def bank_bets_def fetch_df_def
      eval_frame eval_row strict_lib_def parse_ymd_202404 Let_def eval_filter derive_def)

lemma bank_columns:
  "''cb_stake'' \<in> set (columns bank_bets)" "''cb_pnl'' \<in> set (columns bank_bets)"
  "''cb_bank_after'' \<in> set (columns bank_f)" "''cb_dd_after'' \<in> set (columns bank_f)"
  by (simp_all add: bank_f_def bank_bets_def)

theorem kpi_totals_witness:
  "pipeline strict_lib bank_docs ''ALL'' 20240401 20240403 ''ALL'' = Inr (bank_f, bank_bets)
   \<and> ''cb_stake'' \<in> set (columns bank_bets) \<and> ''cb_pnl'' \<in> set (columns bank_bets)
   \<and> ''cb_bank_after'' \<in> set (columns bank_f) \<and> ''cb_dd_after'' \<in> set (columns bank_f)
   \<and> (\<exists>k. home_kpis bank_f bank_bets = Inr k
        \<and> matches k = 3 \<and> bets k = 2 \<and> stake_total k = 10 \<and> pnl_total k = - 5
        \<and> bank k = Some 95 \<and> drawdown k = Some (1 / 10))"
proof -
  have s: "sum_list (map or_zero (column bank_bets ''cb_stake'')) = 10"
    "sum_list (map or_zero (column bank_bets ''cb_pnl'')) = - 5"
    by (simp_all add: bank_bets_def column_def or_zero_def cell_def get_def)
  have b: "present (column bank_f ''cb_bank_after'') = [105, 95]"
    "present (column bank_f ''cb_dd_after'') = [0, 1 / 10]"
    by (simp_all add: bank_f_def column_def present_def cell_def get_def)
  have l: "length (rows bank_f) = 3" "length (rows bank_bets) = 2"
    by (simp_all add: bank_f_def bank_bets_def)
  from kpi_totals [OF bank_pipeline bank_columns, THEN conjunct2, THEN conjunct2]
  obtain k where k: "home_kpis bank_f bank_bets = Inr k"
    and "matches k = length (rows bank_f)" "bets k = length (rows bank_bets)"
    and "stake_total k = sum_list (map or_zero (column bank_bets ''cb_stake''))"
    and "pnl_total k = sum_list (map or_zero (column bank_bets ''cb_pnl''))"
    and "bank k = (if present (column bank_f ''cb_bank_after'') = [] then None
                       else Some (last (present (column bank_f ''cb_bank_after''))))"
    and "drawdown k = (if present (column bank_f ''cb_dd_after'') = [] then None
                           else Some (Max (set (present (column bank_f ''cb_dd_after'')))))"
    by (elim exE conjE) (rule that)
  then have v: "matches k = 3 \<and> bets k = 2 \<and> stake_total k = 10 \<and> pnl_total k = - 5
        \<and> bank k = Some 95 \<and> drawdown k = Some (1 / 10)"
    by (simp add: s b l)
  show ?thesis
    apply (intro conjI bank_pipeline bank_columns)
    apply (rule exI [of _ k])
    apply (rule conjI [OF k v])
    done
qed

section \<open>The full date range\<close>

lemma apply_filters_all:
  assumes "''date'' \<in> set (columns df)"
  shows "apply_filters L df ''ALL'' lo hi ''ALL'' =
           sort_values (select (\<lambda>r. date_ge (cell r ''date'') lo \<and> date_le (cell r ''date'') hi) df)"
  using assms by (simp add: apply_filters_def)

lemma dates_mem:
  assumes "r \<in> set (rows df)" "cell r ''date'' = Ts n"
  shows "n \<in> set (dates df)"
  using assms by (force simp: dates_def)

lemma fold_min_Min: "fold min ds (d::nat) = Min (set (d # ds))"
  by (rule Min.set_eq_fold [symmetric])

lemma fold_max_Max_nat: "fold max ds (d::nat) = Max (set (d # ds))"
  by (rule Max.set_eq_fold [symmetric])

lemma min_date_le:
  assumes "min_date df = Some lo" "n \<in> set (dates df)"
  shows "lo \<le> n"
proof (cases "dates df")
  case Nil
  with assms show ?thesis by simp
next
  case (Cons d ds)
  with assms(1) have "lo = Min (set (d # ds))"
    by (simp only: min_date_def list.case fold_min_Min option.inject)
  with assms(2) Cons show ?thesis
    by (simp only: Min_le List.finite_set)
qed

lemma max_date_ge:
  assumes "max_date df = Some hi" "n \<in> set (dates df)"
  shows "n \<le> hi"
proof (cases "dates df")
  case Nil
  with assms show ?thesis by simp
next
  case (Cons d ds)
  with assms(1) have "hi = Max (set (d # ds))"
    by (simp only: max_date_def list.case fold_max_Max_nat option.inject)
  with assms(2) Cons show ?thesis
    by (simp only: Max_ge List.finite_set)
qed

lemma in_full_range:
  assumes "fetch_df L docs = Inr df" "min_date df = Some lo" "max_date df = Some hi"
    "r \<in> set (rows df)"
  shows "(date_ge (cell r ''date'') lo \<and> date_le (cell r ''date'') hi) = (cell r ''date'' \<noteq> NaN)"
proof -
  from fetch_df_date [OF assms(1,4)] consider "cell r ''date'' = NaN" | n where "cell r ''date'' = Ts n"
    by blast
  then show ?thesis
  proof cases
    case 1
    then show ?thesis by (simp add: date_ge_def date_le_def)
  next
    case 2
    from dates_mem [OF assms(4) 2] have "lo \<le> n" "n \<le> hi"
      using min_date_le [OF assms(2)] max_date_ge [OF assms(3)] by blast+
    with 2 show ?thesis by (simp add: date_ge_def date_le_def)
  qed
qed

lemma full_range_rows:
  assumes "fetch_df L docs = Inr df" "min_date df = Some lo" "max_date df = Some hi"
  shows "filter (\<lambda>r. date_ge (cell r ''date'') lo \<and> date_le (cell r ''date'') hi) (rows df)
         = filter (\<lambda>r. cell r ''date'' \<noteq> NaN) (rows df)"
  using in_full_range [OF assms] by (intro filter_cong) simp_all

lemma full_range_apply:
  assumes "fetch_df L docs = Inr df" "min_date df = Some lo" "max_date df = Some hi"
    "''dia_id'' \<in> set (columns df)"
  shows "apply_filters L df ''ALL'' lo hi ''ALL''
         = Inr (df\<lparr>rows := sort_key row_key (filter (\<lambda>r. cell r ''date'' \<noteq> NaN) (rows df))\<rparr>)"
proof -
  let ?keep = "filter (\<lambda>r. cell r ''date'' \<noteq> NaN) (rows df)"
  let ?sel = "select (\<lambda>r. date_ge (cell r ''date'') lo \<and> date_le (cell r ''date'') hi) df"
  note d = fetch_df_columns [OF assms(1)]
  have sel: "?sel = df\<lparr>rows := ?keep\<rparr>"
    by (simp add: select_def full_range_rows [OF assms(1-3)])
  have "sort_values (df\<lparr>rows := ?keep\<rparr>) = Inr (df\<lparr>rows := sort_key row_key ?keep\<rparr>)"
    using d assms(4) by (simp add: sort_values_def)
  then show ?thesis
    by (simp only: apply_filters_all [OF d] sel)
qed

lemma val_key_Num: "val_key (Num x) \<le> val_key (Num y) \<longleftrightarrow> x \<le> y"
  by auto

lemma val_key_Str: "val_key (Str s) \<le> val_key (Str t) \<longleftrightarrow> s \<le> t"
  by auto

lemma val_key_Str_Num: "\<not> val_key (Str s) \<le> val_key (Num y)"
  by (simp add: less_eq_prod_def less_prod_def)

lemma val_key_na_last:
  assumes "isna v" "val_key v \<le> val_key w"
  shows "isna w"
  using assms by (cases v; cases w) (simp_all add: less_eq_prod_def less_prod_def)

lemma row_key_le:
  assumes "row_key r \<le> row_key r'" "cell r ''date'' = Ts a" "cell r' ''date'' = Ts b"
  shows "a \<le> b"
    and "a = b \<Longrightarrow> val_key (cell r ''dia_id'') \<le> val_key (cell r' ''dia_id'')"
  using assms by (auto simp: row_key_def less_eq_prod_def less_prod_def)

text \<open>
  C1, as the code has it. For a loaded collection with at least one parsed date and a
  \<open>dia_id\<close> column, the filter with league \<open>ALL\<close>, action \<open>ALL\<close> and the range from the
  least to the greatest parsed date returns exactly the records whose date parsed, each
  once, sorted ascending by date and then by \<open>dia_id\<close>: among the records of a date,
  numbers by value, then strings, a missing \<open>dia_id\<close> last. A record whose date did not
  parse is not returned.
\<close>

theorem full_range_filter:
  assumes "fetch_df L docs = Inr df"
    and "min_date df = Some lo" and "max_date df = Some hi"
    and "''dia_id'' \<in> set (columns df)"
  shows "\<exists>out. apply_filters L df ''ALL'' lo hi ''ALL'' = Inr out
     \<and> columns out = columns df
     \<and> mset (rows out) = mset (filter (\<lambda>r. cell r ''date'' \<noteq> NaN) (rows df))
     \<and> (\<forall>r \<in> set (rows df). cell r ''date'' = NaN \<longrightarrow> r \<notin> set (rows out))
     \<and> sorted (map row_key (rows out))
     \<and> (\<forall>i j. i < j \<and> j < length (rows out) \<longrightarrow>
           (\<exists>a b. cell (rows out ! i) ''date'' = Ts a \<and> cell (rows out ! j) ''date'' = Ts b
              \<and> a \<le> b
              \<and> (a = b \<longrightarrow>
                    (\<forall>x y. cell (rows out ! i) ''dia_id'' = Num x
                            \<and> cell (rows out ! j) ''dia_id'' = Num y \<longrightarrow> x \<le> y)
                    \<and> (\<forall>s t. cell (rows out ! i) ''dia_id'' = Str s
                            \<and> cell (rows out ! j) ''dia_id'' = Str t \<longrightarrow> s \<le> t)
                    \<and> (\<forall>s y. cell (rows out ! i) ''dia_id'' = Str s
                            \<longrightarrow> cell (rows out ! j) ''dia_id'' \<noteq> Num y)
                    \<and> (isna (cell (rows out ! i) ''dia_id'')
                         \<longrightarrow> isna (cell (rows out ! j) ''dia_id'')))))"
proof -
  let ?keep = "filter (\<lambda>r. cell r ''date'' \<noteq> NaN) (rows df)"
  let ?out = "df\<lparr>rows := sort_key row_key ?keep\<rparr>"
  note ap = full_range_apply [OF assms]
  have c: "columns ?out = columns df"
    by simp
  have m: "mset (rows ?out) = mset ?keep"
    by simp
  have ex: "\<forall>r \<in> set (rows df). cell r ''date'' = NaN \<longrightarrow> r \<notin> set (rows ?out)"
    by simp
  have so: "sorted (map row_key (rows ?out))"
    by (simp add: sorted_sort_key)
  have ord: "\<forall>i j. i < j \<and> j < length (rows ?out) \<longrightarrow>
           (\<exists>a b. cell (rows ?out ! i) ''date'' = Ts a \<and> cell (rows ?out ! j) ''date'' = Ts b
              \<and> a \<le> b
              \<and> (a = b \<longrightarrow>
                    (\<forall>x y. cell (rows ?out ! i) ''dia_id'' = Num x
                            \<and> cell (rows ?out ! j) ''dia_id'' = Num y \<longrightarrow> x \<le> y)
                    \<and> (\<forall>s t. cell (rows ?out ! i) ''dia_id'' = Str s
                            \<and> cell (rows ?out ! j) ''dia_id'' = Str t \<longrightarrow> s \<le> t)
                    \<and> (\<forall>s y. cell (rows ?out ! i) ''dia_id'' = Str s
                            \<longrightarrow> cell (rows ?out ! j) ''dia_id'' \<noteq> Num y)
                    \<and> (isna (cell (rows ?out ! i) ''dia_id'')
                         \<longrightarrow> isna (cell (rows ?out ! j) ''dia_id''))))"
  proof (intro allI impI)
    fix i j assume ij: "i < j \<and> j < length (rows ?out)"
    let ?ri = "rows ?out ! i" and ?rj = "rows ?out ! j"
    have mem: "?ri \<in> set (rows ?out)" "?rj \<in> set (rows ?out)"
      using ij by (simp_all only: nth_mem order_less_trans [of i j])
    then have "?ri \<in> set (rows df)" "cell ?ri ''date'' \<noteq> NaN"
      "?rj \<in> set (rows df)" "cell ?rj ''date'' \<noteq> NaN"
      by simp_all
    with fetch_df_date [OF assms(1)] obtain a b where
      a: "cell ?ri ''date'' = Ts a" and b: "cell ?rj ''date'' = Ts b"
      by blast
    have "map row_key (rows ?out) ! i \<le> map row_key (rows ?out) ! j"
      using so ij by (intro sorted_nth_mono) simp_all
    then have le: "row_key ?ri \<le> row_key ?rj"
      using ij by simp
    note k = row_key_le [OF le a b]
    have tie: "a = b \<longrightarrow>
                 (\<forall>x y. cell ?ri ''dia_id'' = Num x \<and> cell ?rj ''dia_id'' = Num y \<longrightarrow> x \<le> y)
                 \<and> (\<forall>s t. cell ?ri ''dia_id'' = Str s \<and> cell ?rj ''dia_id'' = Str t \<longrightarrow> s \<le> t)
                 \<and> (\<forall>s y. cell ?ri ''dia_id'' = Str s \<longrightarrow> cell ?rj ''dia_id'' \<noteq> Num y)
                 \<and> (isna (cell ?ri ''dia_id'') \<longrightarrow> isna (cell ?rj ''dia_id''))"
    proof (intro impI conjI allI)
      fix x y assume "a = b" "cell ?ri ''dia_id'' = Num x \<and> cell ?rj ''dia_id'' = Num y"
      with k(2) show "x \<le> y"
        using val_key_Num [of x y] by simp
    next
      fix s t assume "a = b" "cell ?ri ''dia_id'' = Str s \<and> cell ?rj ''dia_id'' = Str t"
      with k(2) show "s \<le> t"
        using val_key_Str [of s t] by simp
    next
      fix s y assume "a = b" "cell ?ri ''dia_id'' = Str s"
      with k(2) show "cell ?rj ''dia_id'' \<noteq> Num y"
        using val_key_Str_Num [of s y] by auto
    next
      assume "a = b" "isna (cell ?ri ''dia_id'')"
      with k(2) show "isna (cell ?rj ''dia_id'')"
        using val_key_na_last by blast
    qed
    show "\<exists>a b. cell ?ri ''date'' = Ts a \<and> cell ?rj ''date'' = Ts b \<and> a \<le> b
              \<and> (a = b \<longrightarrow>
                    (\<forall>x y. cell ?ri ''dia_id'' = Num x \<and> cell ?rj ''dia_id'' = Num y \<longrightarrow> x \<le> y)
                    \<and> (\<forall>s t. cell ?ri ''dia_id'' = Str s \<and> cell ?rj ''dia_id'' = Str t \<longrightarrow> s \<le> t)
                    \<and> (\<forall>s y. cell ?ri ''dia_id'' = Str s \<longrightarrow> cell ?rj ''dia_id'' \<noteq> Num y)
                    \<and> (isna (cell ?ri ''dia_id'') \<longrightarrow> isna (cell ?rj ''dia_id'')))"
      apply (rule exI [of _ a])
      apply (rule exI [of _ b])
      apply (intro conjI a b k(1) tie)
      done
  qed
  show ?thesis
    apply (rule exI [of _ ?out])
    apply (intro conjI ap c m ex so ord)
    done
qed

lemma fetch_undated: "fetch_df strict_lib undated_docs = Inr undated_frame"
  by (simp add: fetch_df_def undated_docs_def undated_frame_def eval_frame eval_row
      strict_lib_def parse_ymd_20240501 parse_ymd_not_a_date Let_def)

lemma undated_range:
  "min_date undated_frame = Some 20240501" "max_date undated_frame = Some 20240501"
  by (simp_all add: min_date_def max_date_def dates_def undated_frame_def cell_def get_def)

lemma undated_dia_id: "''dia_id'' \<in> set (columns undated_frame)"
  by (simp add: undated_frame_def)

lemma filter_undated:
  "apply_filters strict_lib undated_frame ''ALL'' 20240501 20240501 ''ALL'' = Inr dated_only"
  by (simp add: undated_frame_def dated_only_def eval_filter select_def cell_def get_def Let_def)

lemma fetch_mixed: "fetch_df strict_lib mixed_docs = Inr mixed_frame"
  by (simp add: fetch_df_def mixed_docs_def mixed_frame_def eval_frame eval_row
      strict_lib_def parse_ymd_202406 parse_ymd_not_a_date Let_def)

lemma mixed_range:
  "min_date mixed_frame = Some 20240601" "max_date mixed_frame = Some 20240602"
  by (simp_all add: min_date_def max_date_def dates_def mixed_frame_def cell_def get_def)

lemma mixed_dia_id: "''dia_id'' \<in> set (columns mixed_frame)"
  by (simp add: mixed_frame_def)

lemma filter_mixed:
  "apply_filters strict_lib mixed_frame ''ALL'' 20240601 20240602 ''ALL'' = Inr mixed_sorted"
  by (simp add: mixed_frame_def mixed_sorted_def eval_filter select_def cell_def get_def Let_def)

theorem full_range_filter_witness:
  "fetch_df strict_lib mixed_docs = Inr mixed_frame
   \<and> min_date mixed_frame = Some 20240601 \<and> max_date mixed_frame = Some 20240602
   \<and> ''dia_id'' \<in> set (columns mixed_frame)
   \<and> apply_filters strict_lib mixed_frame ''ALL'' 20240601 20240602 ''ALL'' = Inr mixed_sorted
   \<and> length (rows mixed_frame) = 6 \<and> length (rows mixed_sorted) = 5
   \<and> mset (rows mixed_sorted) = mset (filter (\<lambda>r. cell r ''date'' \<noteq> NaN) (rows mixed_frame))
   \<and> sorted (map row_key (rows mixed_sorted))
   \<and> map (\<lambda>r. cell r ''_doc_id'') (rows mixed_sorted)
       = [Str ''m6'', Str ''m3'', Str ''m5'', Str ''m1'', Str ''m4'']"
proof -
  from full_range_filter [OF fetch_mixed mixed_range mixed_dia_id]
  obtain out where o: "apply_filters strict_lib mixed_frame ''ALL'' 20240601 20240602 ''ALL'' = Inr out"
    and m: "mset (rows out) = mset (filter (\<lambda>r. cell r ''date'' \<noteq> NaN) (rows mixed_frame))"
    and s: "sorted (map row_key (rows out))"
    by (elim exE conjE)
  from o have out: "out = mixed_sorted"
    by (simp add: filter_mixed)
  have l: "length (rows mixed_frame) = 6" "length (rows mixed_sorted) = 5"
    "map (\<lambda>r. cell r ''_doc_id'') (rows mixed_sorted)
       = [Str ''m6'', Str ''m3'', Str ''m5'', Str ''m1'', Str ''m4'']"
    by (simp_all add: mixed_frame_def mixed_sorted_def cell_def get_def)
  show ?thesis
    using m s unfolding out
    by (intro conjI fetch_mixed mixed_range mixed_dia_id filter_mixed l)
qed

text \<open>
  C1 as stated fails: the record \<open>u2\<close>, whose date \<open>not-a-date\<close> does not parse, is loaded with
  a missing date and the filter over the full range of dates does not return it.
\<close>

theorem unparsed_date_counterexample:
  "fetch_df strict_lib undated_docs = Inr undated_frame
   \<and> length (rows undated_frame) = 2
   \<and> cell (rows undated_frame ! 1) ''date'' = NaN
   \<and> min_date undated_frame = Some 20240501 \<and> max_date undated_frame = Some 20240501
   \<and> apply_filters strict_lib undated_frame ''ALL'' 20240501 20240501 ''ALL'' = Inr dated_only
   \<and> length (rows dated_only) = 1
   \<and> rows undated_frame ! 1 \<notin> set (rows dated_only)"
proof -
  have "length (rows undated_frame) = 2" "cell (rows undated_frame ! 1) ''date'' = NaN"
    "length (rows dated_only) = 1" "rows undated_frame ! 1 \<notin> set (rows dated_only)"
    by (simp_all add: undated_frame_def dated_only_def cell_def get_def)
  then show ?thesis
    by (intro conjI fetch_undated undated_range filter_undated)
qed

section \<open>A row without an action\<close>

lemma fetch_blank_docs: "fetch_df strict_lib blank_docs = Inr blank_frame"
  by (simp add: fetch_df_def blank_docs_def blank_frame_def eval_frame eval_row strict_lib_def
      parse_ymd_202401 Let_def)

lemma action_of_bet_row: "action_of L (bet_row L r) = action_of L r"
  by (simp add: action_of_def cell_bet_row)

lemma result_of_bet_row: "result_of L (bet_row L r) = result_of L r"
  by (simp add: result_of_def cell_bet_row)

lemma hit_bet_row: "hit L (bet_row L r) = hit L r"
  by (simp add: hit_def action_of_bet_row result_of_bet_row)

lemma action_of_missing:
  "cell r ''cb_action'' = NaN \<Longrightarrow> action_of L r = (if keeps_na L then None else Some ''NAN'')"
  by (simp add: action_of_def astype_str_def py_str_def upper_nan)

lemma result_of_missing:
  "cell r ''result'' = NaN \<Longrightarrow> result_of L r = (if keeps_na L then None else Some ''NAN'')"
  by (simp add: result_of_def astype_str_def py_str_def upper_nan)

lemma pick_by_action_missing:
  assumes "cell r ''cb_action'' = NaN"
  shows "pick_by_action L r p = PyNone"
proof (cases "map_of r ''cb_action''")
  case None
  then show ?thesis
    using picked_action_absent [of r L] by (simp add: pick_by_action_def)
next
  case (Some v)
  with assms have "picked_action L r = ''NAN''"
    by (simp add: picked_action_def cell_def get_def py_str_def upper_nan)
  then show ?thesis by (simp add: pick_by_action_def)
qed

lemma hit_rate_eq:
  assumes "rows df_bets \<noteq> []" "''cb_action'' \<in> set (columns df_bets)"
    "''result'' \<in> set (columns df_bets)"
  shows "hit_rate L df_bets =
           Inr (Some (of_nat (length (filter (hit L) (rows df_bets)))
                      / of_nat (length (rows df_bets))))"
  using assms by (simp add: hit_rate_def)

text \<open>
  C10, as the code has it. A row whose \<open>cb_action\<close> is missing has, after
  \<^verbatim>\<open>astype(str).str.upper()\<close>, the action text \<open>NAN\<close> under pandas before 3 and no action
  text under pandas 3; neither is \<open>NO_BET\<close>. Under both the row is a bet, it is in the bet
  subset (so it counts in the number of bets and in the denominator of the hit rate), the
  picker gives \<open>None\<close> for it, and its \<open>ev_cb\<close> and \<open>edge_cb\<close> are \<open>None\<close>. When its
  \<open>result\<close> is missing too, the row is a hit under pandas before 3, where both sides are
  the text \<open>NAN\<close>, and it is not a hit under pandas 3, where a missing text equals
  nothing.
\<close>

theorem missing_action_is_bet:
  assumes "''cb_action'' \<in> set (columns df)" and "''result'' \<in> set (columns df)"
    and "r \<in> set (rows df)" and "cell r ''cb_action'' = NaN"
  shows "action_of L r = (if keeps_na L then None else Some ''NAN'')
     \<and> is_bet L r \<and> pick_by_action L r p = PyNone
     \<and> (\<exists>df_f df_bets. derive L df = Inr (df_f, df_bets)
          \<and> bet_row L r \<in> set (rows df_bets)
          \<and> length (rows df_bets) = length (filter (is_bet L) (rows df))
          \<and> cell (bet_row L r) ''ev_cb'' = PyNone
          \<and> cell (bet_row L r) ''edge_cb'' = PyNone
          \<and> hit_rate L df_bets =
               Inr (Some (of_nat (length (filter (hit L) (rows df_bets)))
                          / of_nat (length (rows df_bets))))
          \<and> (cell r ''result'' = NaN \<longrightarrow>
                (hit L (bet_row L r) \<longleftrightarrow> \<not> keeps_na L)
                \<and> (bet_row L r \<in> set (filter (hit L) (rows df_bets)) \<longleftrightarrow> \<not> keeps_na L)))"
proof -
  have a: "action_of L r = (if keeps_na L then None else Some ''NAN'')"
    using assms(4) by (rule action_of_missing)
  then have b: "is_bet L r"
    by (simp add: is_bet_def)
  have p: "pick_by_action L r p = PyNone" for p
    using assms(4) by (rule pick_by_action_missing)
  from derive_eq_ex [OF assms(1), of L]
  obtain df_f df_bets where d: "derive L df = Inr (df_f, df_bets)"
    and cf: "set (columns df_f) = insert ''is_bet'' (set (columns df))"
    and cb: "set (columns df_bets) = {''is_bet'', ''ev_cb'', ''edge_cb''} \<union> set (columns df)"
    and rf: "rows df_f = map (\<lambda>r. set_item r ''is_bet'' (Bool (is_bet L r))) (rows df)"
    and rb: "rows df_bets = map (bet_row L) (filter (is_bet L) (rows df))"
    by (elim exE conjE) (rule that)
  have mem: "bet_row L r \<in> set (rows df_bets)"
    using assms(3) b by (simp add: rb)
  have len: "length (rows df_bets) = length (filter (is_bet L) (rows df))"
    by (simp add: rb)
  have ev: "cell (bet_row L r) ''ev_cb'' = PyNone"
    by (simp add: bet_row_ev_cb p)
  have edge: "cell (bet_row L r) ''edge_cb'' = PyNone"
    by (simp add: bet_row_edge_cb p)
  have ne: "rows df_bets \<noteq> []"
    using mem by auto
  have c1: "''cb_action'' \<in> set (columns df_bets)" and c2: "''result'' \<in> set (columns df_bets)"
    using assms(1,2) by (simp_all add: cb)
  have hr: "hit_rate L df_bets =
               Inr (Some (of_nat (length (filter (hit L) (rows df_bets)))
                          / of_nat (length (rows df_bets))))"
    using ne c1 c2 by (rule hit_rate_eq)
  have h: "cell r ''result'' = NaN \<longrightarrow>
             (hit L (bet_row L r) \<longleftrightarrow> \<not> keeps_na L)
             \<and> (bet_row L r \<in> set (filter (hit L) (rows df_bets)) \<longleftrightarrow> \<not> keeps_na L)"
  proof
    assume "cell r ''result'' = NaN"
    then have "hit L r \<longleftrightarrow> \<not> keeps_na L"
      by (simp add: hit_def a result_of_missing)
    then have "hit L (bet_row L r) \<longleftrightarrow> \<not> keeps_na L"
      by (simp add: hit_bet_row)
    with mem show "(hit L (bet_row L r) \<longleftrightarrow> \<not> keeps_na L)
        \<and> (bet_row L r \<in> set (filter (hit L) (rows df_bets)) \<longleftrightarrow> \<not> keeps_na L)"
      by simp
  qed
  show ?thesis
    apply (intro conjI a b p)
    apply (rule exI [of _ df_f])
    apply (rule exI [of _ df_bets])
    apply (intro conjI d mem len ev edge hr h)
    done
qed

lemma blank_frame_result: "''result'' \<in> set (columns blank_frame)"
  by (simp add: blank_frame_def)

theorem missing_action_is_bet_witness:
  "fetch_df strict_lib blank_docs = Inr blank_frame
   \<and> ''cb_action'' \<in> set (columns blank_frame) \<and> ''result'' \<in> set (columns blank_frame)
   \<and> rows blank_frame ! 1 \<in> set (rows blank_frame)
   \<and> cell (rows blank_frame ! 1) ''cb_action'' = NaN
   \<and> cell (rows blank_frame ! 1) ''result'' = NaN
   \<and> is_bet strict_lib (rows blank_frame ! 1)
   \<and> hit strict_lib (bet_row strict_lib (rows blank_frame ! 1))
   \<and> is_bet strict_lib3 (rows blank_frame ! 1)
   \<and> \<not> hit strict_lib3 (bet_row strict_lib3 (rows blank_frame ! 1))"
proof -
  have m: "rows blank_frame ! 1 \<in> set (rows blank_frame)"
    by (simp add: blank_frame_def)
  have c: "cell (rows blank_frame ! 1) ''cb_action'' = NaN"
    by (simp add: blank_frame_def cell_def get_def)
  have r: "cell (rows blank_frame ! 1) ''result'' = NaN"
    by (simp add: blank_frame_def cell_def get_def)
  have k: "\<not> keeps_na strict_lib" "keeps_na strict_lib3"
    by (simp_all add: strict_lib_def strict_lib3_def)
  note t = missing_action_is_bet [OF blank_frame_cb_action blank_frame_result m c,
      of strict_lib "''ev''"]
  note t3 = missing_action_is_bet [OF blank_frame_cb_action blank_frame_result m c,
      of strict_lib3 "''ev''"]
  from t have b: "is_bet strict_lib (rows blank_frame ! 1)"
    by (elim conjE)
  from t3 have b3: "is_bet strict_lib3 (rows blank_frame ! 1)"
    by (elim conjE)
  from t r k(1) have h: "hit strict_lib (bet_row strict_lib (rows blank_frame ! 1))"
    by blast
  from t3 r k(2) have h3: "\<not> hit strict_lib3 (bet_row strict_lib3 (rows blank_frame ! 1))"
    by blast
  show ?thesis
    by (intro conjI fetch_blank_docs blank_frame_cb_action blank_frame_result m c r b h b3 h3)
qed

text \<open>
  C10 as stated fails under pandas 3. The collection \<open>blank_full\<close> has a bet with action
  \<open>H\<close> and result \<open>A\<close> and a bet with neither an action nor a result: the script counts
  two bets and a hit rate of 0, so the second bet, counted in the denominator, is not a
  hit.
\<close>

theorem missing_pair_counterexample:
  "script strict_lib3 blank_full ''ALL'' 20240101 20240101 ''ALL'' =
     Inr \<lparr>bounds = (Some 20240101, Some 20240101),
          home = \<lparr>matches = 3, bets = 2, stake_total = 20, pnl_total = - 20, roi = - 1,
                  bank = Some 100, drawdown = Some 0\<rparr>,
          confusion = Some [(Some ''H'', [(Some ''A'', 1), (None, 0)]),
                            (None, [(Some ''A'', 0), (None, 1)])],
          hit_ratio = Some 0,
          rollup = Some [\<lparr>league = Str ''L1'', l_bets = 2, l_stake_total = 20,
                           l_pnl_total = - 20, l_ev_sum = 1 / 10, l_roi_simple = - 1\<rparr>]\<rparr>"
  by (simp add: blank_full_def blank_docs_def eval_script parse_ymd_202401)

section \<open>The hit rate\<close>

text \<open>
  C2 fails on the code under pandas before 3. Lines 160 and 161 turn both columns into
  texts without dropping the missing cells first, as line 75 does for the sidebar
  (\<^verbatim>\<open>df["cb_action"].dropna().astype(str)\<close>), so a missing action and a missing result are
  both the text \<open>NAN\<close> and line 168 finds them equal. The collection \<open>blank_full\<close> has two
  bets: one with action \<open>H\<close> and result \<open>A\<close>, one with neither an action nor a result.
  No bet has a result equal to its action, so the hit rate of C2 is 0; the script shows
  1/2, and the contingency table has a cell \<open>(NAN, NAN)\<close> with one bet.
\<close>

theorem hit_rate_missing_pair:
  "script strict_lib blank_full ''ALL'' 20240101 20240101 ''ALL'' =
     Inr \<lparr>bounds = (Some 20240101, Some 20240101),
          home = \<lparr>matches = 3, bets = 2, stake_total = 20, pnl_total = - 20, roi = - 1,
                  bank = Some 100, drawdown = Some 0\<rparr>,
          confusion = Some [(Some ''H'', [(Some ''A'', 1), (Some ''NAN'', 0)]),
                            (Some ''NAN'', [(Some ''A'', 0), (Some ''NAN'', 1)])],
          hit_ratio = Some (1 / 2),
          rollup = Some [\<lparr>league = Str ''L1'', l_bets = 2, l_stake_total = 20,
                           l_pnl_total = - 20, l_ev_sum = 1 / 10, l_roi_simple = - 1\<rparr>]\<rparr>"
  by (simp add: blank_full_def blank_docs_def eval_script parse_ymd_202401)

section \<open>The ROI of a league\<close>

text \<open>
  Neither guard lets a division by zero through: the scalar ROI and the ROI of a league
  are always a number, never the ZeroDivisionError of \<open>py_div\<close>.
\<close>

lemma roi_no_fault:
  "\<exists>x. roi_simple p s = Inr x" "\<exists>x. league_roi p s = Inr x"
  by (simp_all add: roi_simple_Inr league_roi_Inr)

lemma roi_guards_agree: "0 \<le> s \<Longrightarrow> league_roi p s = roi_simple p s"
  by (simp add: roi_simple_def league_roi_def)

text \<open>
  C3 fails on the code for the rollup. Line 101 guards the scalar ROI with
  \<^verbatim>\<open>stake_total > 0\<close>; line 181 guards the ROI of a league with the truth value of
  \<^verbatim>\<open>r["stake_total"]\<close>, which holds for a negative total too. The only bet of \<open>neg_docs\<close>
  has the stake -10 and the PnL 5: the scalar ROI is 0, as C3 says, and the ROI of its
  league \<open>L1\<close> is 5 / -10 = -1/2, where C3 says 0.
\<close>

theorem league_roi_negative_stake:
  "script strict_lib neg_docs ''ALL'' 20240301 20240302 ''ALL'' =
     Inr \<lparr>bounds = (Some 20240301, Some 20240302),
          home = \<lparr>matches = 2, bets = 1, stake_total = - 10, pnl_total = 5, roi = 0,
                  bank = Some 105, drawdown = Some 0\<rparr>,
          confusion = Some [(Some ''H'', [(Some ''H'', 1)])],
          hit_ratio = Some 1,
          rollup = Some [\<lparr>league = Str ''L1'', l_bets = 1, l_stake_total = - 10,
                           l_pnl_total = 5, l_ev_sum = 1 / 10, l_roi_simple = - (1 / 2)\<rparr>]\<rparr>"
  by (simp add: neg_docs_def eval_script parse_ymd_202403)

section \<open>A column missing from every record\<close>

text \<open>
  C9 fails on the code. The records of the scenario, with a league, have no
  \<open>cb_bank_after\<close>: the loader skips the column it does not find, the sidebar, the filter
  and the derived columns succeed, and line 102 reads \<^verbatim>\<open>df_f["cb_bank_after"]\<close> without the
  guard the loader and the Bankroll tab have.
\<close>

theorem missing_column_key_error:
  "dashboard strict_lib scenario_league ''ALL'' 20240101 20240103 ''ALL''
     = Inl (KeyError ''cb_bank_after'')"
  by (simp add: dashboard_def scenario_league_def scenario_def fetch_df_def eval_frame eval_row
      strict_lib_def parse_ymd_202401 Let_def eval_filter eval_kpis derive_def sidebar_def
      sortable_list_all column_def)

section \<open>The scenario\<close>

lemma script_scenario:
  "script L scenario lg lo hi act = Inl (KeyError ''league'')"
  by (simp add: scenario_def script_def fetch_df_def eval_frame cell_def get_def Let_def
      sidebar_def bindE_def)

lemma script_scenario_league:
  "script strict_lib scenario_league ''ALL'' 20240101 20240103 ''ALL''
     = Inl (KeyError ''cb_bank_after'')"
  by (simp add: scenario_league_def scenario_def eval_script parse_ymd_202401)

lemma script_scenario_full:
  "script strict_lib scenario_full ''ALL'' 20240101 20240103 ''ALL'' =
     Inr \<lparr>bounds = (Some 20240101, Some 20240103),
          home = \<lparr>matches = 3, bets = 2, stake_total = 20, pnl_total = - 5, roi = - (1 / 4),
                  bank = Some 100, drawdown = Some 0\<rparr>,
          confusion = Some [(Some ''D'', [(Some ''A'', 1), (Some ''H'', 0)]),
                            (Some ''H'', [(Some ''A'', 0), (Some ''H'', 1)])],
          hit_ratio = Some (1 / 2),
          rollup = Some [\<lparr>league = Str ''L1'', l_bets = 2, l_stake_total = 20,
                           l_pnl_total = - 5, l_ev_sum = 3 / 20, l_roi_simple = - (1 / 4)\<rparr>]\<rparr>"
  by (simp add: scenario_full_def scenario_def eval_script parse_ymd_202401)

text \<open>
  C7 fails on the code. On the three records of the scenario as the specification gives
  them the script shows no figure: no record has a league, and line 74 reads
  \<^verbatim>\<open>df["league"]\<close> without the guard the filter and the Explorer tab have, whatever the
  library and the choices in the sidebar. With a league on every record the run ends at
  line 102, on the missing \<open>cb_bank_after\<close>. With the league, the teams, the bank and the
  drawdown on every record the script shows the figures of C7: 3 matches, 2 bets, stake
  total 20, PnL total -5, ROI -1/4, hit rate 1/2, and a contingency table with 1 in the
  cells \<open>(H, H)\<close> and \<open>(D, A)\<close> and 0 in the other two.
\<close>

theorem scenario_key_error:
  "script L scenario lg lo hi act = Inl (KeyError ''league'')
   \<and> script strict_lib scenario_league ''ALL'' 20240101 20240103 ''ALL''
       = Inl (KeyError ''cb_bank_after'')
   \<and> script strict_lib scenario_full ''ALL'' 20240101 20240103 ''ALL'' =
       Inr \<lparr>bounds = (Some 20240101, Some 20240103),
            home = \<lparr>matches = 3, bets = 2, stake_total = 20, pnl_total = - 5, roi = - (1 / 4),
                    bank = Some 100, drawdown = Some 0\<rparr>,
            confusion = Some [(Some ''D'', [(Some ''A'', 1), (Some ''H'', 0)]),
                              (Some ''H'', [(Some ''A'', 0), (Some ''H'', 1)])],
            hit_ratio = Some (1 / 2),
            rollup = Some [\<lparr>league = Str ''L1'', l_bets = 2, l_stake_total = 20,
                             l_pnl_total = - 5, l_ev_sum = 3 / 20,
                             l_roi_simple = - (1 / 4)\<rparr>]\<rparr>"
  by (intro conjI script_scenario script_scenario_league script_scenario_full)

section \<open>No bets and no matches\<close>

lemma total_empty: "rows df_bets = [] \<Longrightarrow> total df_bets c = Inr 0"
  by (simp add: total_def)

lemma apply_filters_total:
  assumes "''league'' \<in> set (columns df)" "''cb_action'' \<in> set (columns df)"
    "''date'' \<in> set (columns df)" "''dia_id'' \<in> set (columns df)"
  shows "\<exists>df0. apply_filters L df lg lo hi act = Inr df0"
  using assms by (simp add: apply_filters_def sort_values_def select_def Let_def)

lemma sidebar_Inr:
  assumes "''league'' \<in> set (columns df)" "''cb_action'' \<in> set (columns df)"
    "sortable (column df ''league'')"
  shows "sidebar df = Inr ()"
  using assms by (simp add: sidebar_def)

lemma tabs_empty:
  assumes "rows df_bets = []"
  shows "value_tab df_bets = Inr ()" "backtest_tab L df_bets = Inr (None, None, None)"
  using assms
  by (simp_all add: value_tab_def backtest_tab_def conf_def hit_rate_def by_league_def bindE_def)

lemma present_empty: "rows df = [] \<Longrightarrow> present (column df c) = []"
  by (simp add: column_def present_def)

text \<open>
  C8. Take a loaded collection with at least one parsed date (the date widgets of the
  sidebar need their bounds), whose frame has the columns the script reads by name before
  its tabs (\<open>league\<close>, \<open>cb_action\<close>, \<open>dia_id\<close>, \<open>cb_bank_after\<close>, \<open>cb_dd_after\<close>), the leagues
  of one kind. Whatever the choices in the sidebar, the filter and the derived
  columns return a filtered frame and a bet subset; and when the filtered frame or the bet
  subset is empty, the script runs to its end without an error, with these figures: bets,
  stake total, PnL total and ROI are 0, the Backtest tab computes nothing, matches is the
  number of rows of the filtered frame and the final bank and the maximal drawdown are
  those of the filtered frame; with an empty filtered frame matches is 0 and the final
  bank and the maximal drawdown are absent.
\<close>

theorem empty_state_kpis:
  assumes "fetch_df L docs = Inr df"
    and "{''league'', ''cb_action'', ''dia_id'', ''cb_bank_after'', ''cb_dd_after''}
           \<subseteq> set (columns df)"
    and "sortable (column df ''league'')" and "dates df \<noteq> []"
  shows "\<exists>df_f df_bets. pipeline L docs lg lo hi act = Inr (df_f, df_bets)
     \<and> (rows df_f = [] \<or> rows df_bets = [] \<longrightarrow>
          (\<exists>k. script L docs lg lo hi act =
                  Inr \<lparr>bounds = (min_date df, max_date df), home = k, confusion = None,
                       hit_ratio = None, rollup = None\<rparr>
             \<and> matches k = length (rows df_f) \<and> bets k = 0
             \<and> stake_total k = 0 \<and> pnl_total k = 0 \<and> roi k = 0
             \<and> bank k = (if present (column df_f ''cb_bank_after'') = [] then None
                          else Some (last (present (column df_f ''cb_bank_after''))))
             \<and> drawdown k = (if present (column df_f ''cb_dd_after'') = [] then None
                              else Some (Max (set (present (column df_f ''cb_dd_after'')))))
             \<and> (rows df_f = [] \<longrightarrow> matches k = 0 \<and> bank k = None \<and> drawdown k = None)))"
proof -
  from assms(2) have c: "''league'' \<in> set (columns df)" "''cb_action'' \<in> set (columns df)"
    "''dia_id'' \<in> set (columns df)" "''cb_bank_after'' \<in> set (columns df)"
    "''cb_dd_after'' \<in> set (columns df)"
    by simp_all
  note dt = fetch_df_columns [OF assms(1)]
  from apply_filters_total [OF c(1,2) dt c(3), of L lg lo hi act]
  obtain df0 where a: "apply_filters L df lg lo hi act = Inr df0" ..
  note sub = apply_filters_subset(1,2) [OF a]
  have c0: "''cb_action'' \<in> set (columns df0)"
    using c(2) by (simp add: sub(2))
  from derive_eq_ex [OF c0, of L]
  obtain df_f df_bets where d: "derive L df0 = Inr (df_f, df_bets)"
    and cf: "set (columns df_f) = insert ''is_bet'' (set (columns df0))"
    and rf: "rows df_f = map (\<lambda>r. set_item r ''is_bet'' (Bool (is_bet L r))) (rows df0)"
    and rb: "rows df_bets = map (bet_row L) (filter (is_bet L) (rows df0))"
    by (elim exE conjE) (rule that)
  have p: "pipeline L docs lg lo hi act = Inr (df_f, df_bets)"
    by (simp add: pipeline_def bindE_def assms(1) a d)
  have cols_f: "''cb_bank_after'' \<in> set (columns df_f)" "''cb_dd_after'' \<in> set (columns df_f)"
    "''date'' \<in> set (columns df_f)" "''dia_id'' \<in> set (columns df_f)"
    using c dt by (simp_all add: cf sub(2))
  have n: "''cb_bank_after'' \<in> set numeric_columns" "''cb_dd_after'' \<in> set numeric_columns"
    by (simp_all add: numeric_columns_def)
  note f3 = pipeline_float(1) [OF p n(1) cols_f(1)]
  note f4 = pipeline_float(1) [OF p n(2) cols_f(2)]
  have sb: "sidebar df = Inr ()"
    using c(1,2) assms(3) by (rule sidebar_Inr)
  have sv: "sort_values df_f = Inr (df_f\<lparr>rows := sort_key row_key (rows df_f)\<rparr>)"
    using cols_f(3,4) by (simp add: sort_values_def)
  let ?b = "if present (column df_f ''cb_bank_after'') = [] then None
            else Some (last (present (column df_f ''cb_bank_after'')))"
  let ?d = "if present (column df_f ''cb_dd_after'') = [] then None
            else Some (Max (set (present (column df_f ''cb_dd_after''))))"
  let ?k = "\<lparr>matches = length (rows df_f), bets = 0, stake_total = 0, pnl_total = 0, roi = 0,
            bank = ?b, drawdown = ?d\<rparr>"
  have e: "\<exists>k. script L docs lg lo hi act =
                  Inr \<lparr>bounds = (min_date df, max_date df), home = k, confusion = None,
                       hit_ratio = None, rollup = None\<rparr>
             \<and> matches k = length (rows df_f) \<and> bets k = 0
             \<and> stake_total k = 0 \<and> pnl_total k = 0 \<and> roi k = 0
             \<and> bank k = ?b \<and> drawdown k = ?d
             \<and> (rows df_f = [] \<longrightarrow> matches k = 0 \<and> bank k = None \<and> drawdown k = None)"
    if emp: "rows df_f = [] \<or> rows df_bets = []"
  proof -
    from emp have nb: "rows df_bets = []"
      by (auto simp: rf rb)
    have hk: "home_kpis df_f df_bets = Inr ?k"
      by (simp add: home_kpis_def bindE_def total_empty [OF nb] roi_simple_Inr roi_value_def
          bank_final_eq [OF cols_f(1) f3] max_dd_eq [OF cols_f(2) f4] nb)
    have s: "script L docs lg lo hi act =
               Inr \<lparr>bounds = (min_date df, max_date df), home = ?k, confusion = None,
                    hit_ratio = None, rollup = None\<rparr>"
      by (simp add: script_def bindE_def assms(1) sb a d hk tabs_empty [OF nb] sv)
    have z: "rows df_f = [] \<longrightarrow> matches ?k = 0 \<and> bank ?k = None \<and> drawdown ?k = None"
      by (simp add: present_empty)
    show ?thesis
      apply (rule exI [of _ ?k])
      apply (rule conjI [OF s])
      apply (intro conjI z)
      apply simp_all
      done
  qed
  show ?thesis
    apply (rule exI [of _ df_f])
    apply (rule exI [of _ df_bets])
    apply (rule conjI [OF p])
    apply (rule impI)
    apply (erule e)
    done
qed

lemma fetch_neg: "fetch_df strict_lib neg_docs = Inr neg_frame"
  by (simp add: fetch_df_def neg_docs_def neg_frame_def neg_columns_def eval_frame eval_row
      strict_lib_def parse_ymd_202403 Let_def)

lemma neg_frame_columns:
  "{''league'', ''cb_action'', ''dia_id'', ''cb_bank_after'', ''cb_dd_after''}
     \<subseteq> set (columns neg_frame)"
  by (simp add: neg_frame_def neg_columns_def)

lemma neg_frame_leagues: "sortable (column neg_frame ''league'')"
  by (simp add: neg_frame_def sortable_list_all column_def cell_def get_def)

lemma neg_frame_dates: "dates neg_frame \<noteq> []"
  by (simp add: dates_def neg_frame_def cell_def get_def)

lemma neg_frame_bounds:
  "min_date neg_frame = Some 20240301" "max_date neg_frame = Some 20240302"
  by (simp_all add: min_date_def max_date_def dates_def neg_frame_def cell_def get_def)

lemma pipeline_neg_nobet:
  "pipeline strict_lib neg_docs ''ALL'' 20240301 20240302 ''NO_BET'' = Inr (neg_nobet_f, neg_no_bets)"
  by (simp add: pipeline_def bindE_def neg_docs_def neg_nobet_f_def neg_no_bets_def neg_columns_def
      fetch_df_def eval_frame eval_row strict_lib_def parse_ymd_202403 Let_def eval_filter
      derive_def)

lemma pipeline_neg_none:
  "pipeline strict_lib neg_docs ''L3'' 20240301 20240302 ''ALL'' = Inr (neg_none_f, neg_no_bets)"
  by (simp add: pipeline_def bindE_def neg_docs_def neg_none_f_def neg_no_bets_def neg_columns_def
      fetch_df_def eval_frame eval_row strict_lib_def parse_ymd_202403 Let_def eval_filter
      derive_def)

theorem empty_state_kpis_witness:
  "fetch_df strict_lib neg_docs = Inr neg_frame
   \<and> {''league'', ''cb_action'', ''dia_id'', ''cb_bank_after'', ''cb_dd_after''}
        \<subseteq> set (columns neg_frame)
   \<and> sortable (column neg_frame ''league'') \<and> dates neg_frame \<noteq> []
   \<and> pipeline strict_lib neg_docs ''ALL'' 20240301 20240302 ''NO_BET'' = Inr (neg_nobet_f, neg_no_bets)
   \<and> rows neg_nobet_f \<noteq> [] \<and> rows neg_no_bets = []
   \<and> script strict_lib neg_docs ''ALL'' 20240301 20240302 ''NO_BET'' =
       Inr \<lparr>bounds = (Some 20240301, Some 20240302),
            home = \<lparr>matches = 1, bets = 0, stake_total = 0, pnl_total = 0, roi = 0,
                    bank = Some 105, drawdown = None\<rparr>,
            confusion = None, hit_ratio = None, rollup = None\<rparr>
   \<and> pipeline strict_lib neg_docs ''L3'' 20240301 20240302 ''ALL'' = Inr (neg_none_f, neg_no_bets)
   \<and> rows neg_none_f = []
   \<and> script strict_lib neg_docs ''L3'' 20240301 20240302 ''ALL'' =
       Inr \<lparr>bounds = (Some 20240301, Some 20240302),
            home = \<lparr>matches = 0, bets = 0, stake_total = 0, pnl_total = 0, roi = 0,
                    bank = None, drawdown = None\<rparr>,
            confusion = None, hit_ratio = None, rollup = None\<rparr>"
proof -
  have r: "rows neg_nobet_f \<noteq> []" "rows neg_no_bets = []" "rows neg_none_f = []"
    by (simp_all add: neg_nobet_f_def neg_no_bets_def neg_none_f_def)
  have v: "length (rows neg_nobet_f) = 1"
    "present (column neg_nobet_f ''cb_bank_after'') = [105]"
    "present (column neg_nobet_f ''cb_dd_after'') = []"
    by (simp_all add: neg_nobet_f_def column_def present_def cell_def get_def)
  from empty_state_kpis [OF fetch_neg neg_frame_columns neg_frame_leagues neg_frame_dates,
      of "''ALL''" 20240301 20240302 "''NO_BET''"]
  obtain df_f df_bets
    where p: "pipeline strict_lib neg_docs ''ALL'' 20240301 20240302 ''NO_BET'' = Inr (df_f, df_bets)"
    and i: "rows df_f = [] \<or> rows df_bets = [] \<longrightarrow>
          (\<exists>k. script strict_lib neg_docs ''ALL'' 20240301 20240302 ''NO_BET'' =
                  Inr \<lparr>bounds = (min_date neg_frame, max_date neg_frame), home = k,
                       confusion = None, hit_ratio = None, rollup = None\<rparr>
             \<and> matches k = length (rows df_f) \<and> bets k = 0
             \<and> stake_total k = 0 \<and> pnl_total k = 0 \<and> roi k = 0
             \<and> bank k = (if present (column df_f ''cb_bank_after'') = [] then None
                          else Some (last (present (column df_f ''cb_bank_after''))))
             \<and> drawdown k = (if present (column df_f ''cb_dd_after'') = [] then None
                              else Some (Max (set (present (column df_f ''cb_dd_after'')))))
             \<and> (rows df_f = [] \<longrightarrow> matches k = 0 \<and> bank k = None \<and> drawdown k = None))"
    by (elim exE conjE) (rule that)
  from p have eq: "df_f = neg_nobet_f" "df_bets = neg_no_bets"
    by (simp_all add: pipeline_neg_nobet)
  have "rows df_f = [] \<or> rows df_bets = []"
    using r(2) by (simp add: eq)
  from mp [OF i this] obtain k where "script strict_lib neg_docs ''ALL'' 20240301 20240302 ''NO_BET'' =
                  Inr \<lparr>bounds = (min_date neg_frame, max_date neg_frame), home = k,
                       confusion = None, hit_ratio = None, rollup = None\<rparr>"
    and "matches k = length (rows neg_nobet_f)" "bets k = 0" "stake_total k = 0"
    "pnl_total k = 0" "roi k = 0"
    "bank k = (if present (column neg_nobet_f ''cb_bank_after'') = [] then None
               else Some (last (present (column neg_nobet_f ''cb_bank_after''))))"
    "drawdown k = (if present (column neg_nobet_f ''cb_dd_after'') = [] then None
                   else Some (Max (set (present (column neg_nobet_f ''cb_dd_after'')))))"
    unfolding eq by (elim exE conjE) (rule that)
  then have s1: "script strict_lib neg_docs ''ALL'' 20240301 20240302 ''NO_BET'' =
       Inr \<lparr>bounds = (Some 20240301, Some 20240302),
            home = \<lparr>matches = 1, bets = 0, stake_total = 0, pnl_total = 0, roi = 0,
                    bank = Some 105, drawdown = None\<rparr>,
            confusion = None, hit_ratio = None, rollup = None\<rparr>"
    by (simp add: neg_frame_bounds v)
  from empty_state_kpis [OF fetch_neg neg_frame_columns neg_frame_leagues neg_frame_dates,
      of "''L3''" 20240301 20240302 "''ALL''"]
  obtain df_f' df_bets'
    where p': "pipeline strict_lib neg_docs ''L3'' 20240301 20240302 ''ALL'' = Inr (df_f', df_bets')"
    and i': "rows df_f' = [] \<or> rows df_bets' = [] \<longrightarrow>
          (\<exists>k. script strict_lib neg_docs ''L3'' 20240301 20240302 ''ALL'' =
                  Inr \<lparr>bounds = (min_date neg_frame, max_date neg_frame), home = k,
                       confusion = None, hit_ratio = None, rollup = None\<rparr>
             \<and> matches k = length (rows df_f') \<and> bets k = 0
             \<and> stake_total k = 0 \<and> pnl_total k = 0 \<and> roi k = 0
             \<and> bank k = (if present (column df_f' ''cb_bank_after'') = [] then None
                          else Some (last (present (column df_f' ''cb_bank_after''))))
             \<and> drawdown k = (if present (column df_f' ''cb_dd_after'') = [] then None
                              else Some (Max (set (present (column df_f' ''cb_dd_after'')))))
             \<and> (rows df_f' = [] \<longrightarrow> matches k = 0 \<and> bank k = None \<and> drawdown k = None))"
    by (elim exE conjE) (rule that)
  from p' have eq': "df_f' = neg_none_f" "df_bets' = neg_no_bets"
    by (simp_all add: pipeline_neg_none)
  have "rows df_f' = [] \<or> rows df_bets' = []"
    using r(3) by (simp add: eq')
  from mp [OF i' this] obtain k' where "script strict_lib neg_docs ''L3'' 20240301 20240302 ''ALL'' =
                  Inr \<lparr>bounds = (min_date neg_frame, max_date neg_frame), home = k',
                       confusion = None, hit_ratio = None, rollup = None\<rparr>"
    and "bets k' = 0" "stake_total k' = 0" "pnl_total k' = 0" "roi k' = 0"
    and "rows neg_none_f = [] \<longrightarrow> matches k' = 0 \<and> bank k' = None \<and> drawdown k' = None"
    unfolding eq' by (elim exE conjE) (rule that)
  with r(3) have s2: "script strict_lib neg_docs ''L3'' 20240301 20240302 ''ALL'' =
       Inr \<lparr>bounds = (Some 20240301, Some 20240302),
            home = \<lparr>matches = 0, bets = 0, stake_total = 0, pnl_total = 0, roi = 0,
                    bank = None, drawdown = None\<rparr>,
            confusion = None, hit_ratio = None, rollup = None\<rparr>"
    by (simp add: neg_frame_bounds)
  show ?thesis
    by (intro conjI fetch_neg neg_frame_columns neg_frame_leagues neg_frame_dates
        pipeline_neg_nobet pipeline_neg_none r s1 s2)
qed

end
